theory Spec2Isabelle
  imports Main "HOL-Library.Word"
begin

unbundle bit_operations_syntax

section \<open>Values and errors\<close>

text \<open>
  The module \<^verbatim>\<open>lib/bitcoin.py\<close> is Python 3: byte buffers are \<^verbatim>\<open>bytes\<close> (indexing
  gives an integer in \<open>0..255\<close>), texts are \<^verbatim>\<open>str\<close>, integers are unbounded. A byte is
  an \<open>8 word\<close>, a buffer a list of bytes, a text a \<open>string\<close>, an integer an \<open>int\<close>.
  Every \<^verbatim>\<open>raise\<close>, failed \<^verbatim>\<open>assert\<close> and failing builtin is a value \<open>Inl e\<close>.
\<close>

type_synonym byte = "8 word"
type_synonym bytes = "byte list"

datatype error =
    AssertionError
  | ValueError
  | TypeError
  | UnicodeError
  | UnboundLocalError
  | NoActiveException
  | InvalidPassword
  | Exception string
  | BaseException string
  | LibraryError

text \<open>An argument that the caller may pass as text or as bytes.\<close>

datatype pyval = Str string | Bytes bytes

definition bind :: "error + 'a \<Rightarrow> ('a \<Rightarrow> error + 'b) \<Rightarrow> error + 'b" where
  "bind m f = (case m of Inl e \<Rightarrow> Inl e | Inr x \<Rightarrow> f x)"

definition byte_of_char :: "char \<Rightarrow> byte" where
  "byte_of_char c = of_nat (of_char c)"

definition char_of_byte :: "byte \<Rightarrow> char" where
  "char_of_byte b = char_of (unat b)"

text \<open>
  \<^verbatim>\<open>to_bytes(x, enc)\<close> of \<^verbatim>\<open>lib/util.py\<close> (not among the sources): bytes are returned
  as they are, a text is encoded. A text of the model holds one \<open>char\<close> per code point, so
  only code points below 256 are represented; the ASCII codec raises on a code point
  above 127.
\<close>

definition to_bytes_ascii :: "pyval \<Rightarrow> error + bytes" where
  "to_bytes_ascii x =
     (case x of
        Bytes b \<Rightarrow> Inr b
      | Str s \<Rightarrow> if list_all (\<lambda>c. (of_char c :: nat) < 128) s
                 then Inr (map byte_of_char s) else Inl UnicodeError)"

section \<open>Base58 / Base43 codec\<close>

definition b58chars :: bytes where
  "b58chars = map byte_of_char ''123456789ABCDEFGHJKLMNPQRSTUVWXYZabcdefghijkmnopqrstuvwxyz''"

definition b43chars :: bytes where
  "b43chars = map byte_of_char ''0123456789ABCDEFGHIJKLMNOPQRSTUVWXYZ$*+-./:''"

definition alphabet :: "int \<Rightarrow> bytes" where
  "alphabet base = (if base = 43 then b43chars else b58chars)"

text \<open>\<^verbatim>\<open>for (i, c) in enumerate(v[::-1]): long_value += (256**i) * c\<close>, on the reversed buffer.\<close>

fun bytes_value :: "bytes \<Rightarrow> nat \<Rightarrow> int \<Rightarrow> int" where
  "bytes_value [] i long_value = long_value"
| "bytes_value (c # cs) i long_value = bytes_value cs (Suc i) (long_value + 256 ^ i * uint c)"

text \<open>
  \<^verbatim>\<open>while long_value >= base: div, mod = divmod(long_value, base); result.append(chars[mod]);
  long_value = div\<close>. The base is 58 or 43 at every call (asserted before the loop); the
  test \<open>1 < base\<close> only makes the function total for the other integers.
\<close>

function encode_digits :: "bytes \<Rightarrow> int \<Rightarrow> int \<Rightarrow> bytes \<Rightarrow> int \<times> bytes" where
  "encode_digits chars base long_value result =
     (if 1 < base \<and> long_value \<ge> base
      then encode_digits chars base (long_value div base)
             (result @ [chars ! nat (long_value mod base)])
      else (long_value, result))"
  by pat_completeness auto
termination
proof (relation "measure (\<lambda>(chars, base, long_value, result). nat long_value)")
  show "wf (measure (\<lambda>(chars, base, long_value, result). nat long_value))" by simp
next
  fix chars :: bytes and base long_value :: int and result :: bytes
  assume a: "1 < base \<and> base \<le> long_value"
  then have "long_value div base < long_value"
    by (simp add: int_div_less_self)
  moreover have "0 < long_value" using a by linarith
  ultimately show "((chars, base, long_value div base,
        result @ [chars ! nat (long_value mod base)]), (chars, base, long_value, result))
      \<in> measure (\<lambda>(chars, base, long_value, result). nat long_value)"
    by simp
qed

declare encode_digits.simps [simp del]

text \<open>\<^verbatim>\<open>for c in v: if c == 0x00: nPad += 1 else: break\<close> (and the same with \<^verbatim>\<open>chars[0]\<close>).\<close>

fun count_leading :: "byte \<Rightarrow> bytes \<Rightarrow> nat" where
  "count_leading z [] = 0"
| "count_leading z (c # cs) = (if c = z then Suc (count_leading z cs) else 0)"

definition base_encode :: "bytes \<Rightarrow> int \<Rightarrow> error + string" where
  "base_encode v base =
     (if base \<noteq> 58 \<and> base \<noteq> 43 then Inl AssertionError
      else
        let chars = alphabet base;
            long_value = bytes_value (rev v) 0 0;
            (long_value, result) = encode_digits chars base long_value [];
            result = result @ [chars ! nat long_value];
            nPad = count_leading 0 v;
            result = result @ replicate nPad (chars ! 0)
        in Inr (map char_of_byte (rev result)))"

text \<open>\<^verbatim>\<open>chars.find(bytes([c]))\<close>: the first index of \<open>c\<close>, and \<open>-1\<close> when it does not occur.\<close>

fun find_from :: "bytes \<Rightarrow> byte \<Rightarrow> int \<Rightarrow> int" where
  "find_from [] c i = -1"
| "find_from (x # xs) c i = (if x = c then i else find_from xs c (i + 1))"

definition find :: "bytes \<Rightarrow> byte \<Rightarrow> int" where
  "find chars c = find_from chars c 0"

text \<open>\<^verbatim>\<open>for (i, c) in enumerate(v[::-1]): long_value += chars.find(bytes([c])) * (base**i)\<close>.\<close>

fun digits_value :: "bytes \<Rightarrow> int \<Rightarrow> bytes \<Rightarrow> nat \<Rightarrow> int \<Rightarrow> int" where
  "digits_value chars base [] i long_value = long_value"
| "digits_value chars base (c # cs) i long_value =
     digits_value chars base cs (Suc i) (long_value + find chars c * base ^ i)"

text \<open>
  \<^verbatim>\<open>while long_value >= 256: div, mod = divmod(long_value, 256); result.append(mod);
  long_value = div\<close>.
\<close>

function decode_bytes :: "int \<Rightarrow> bytes \<Rightarrow> int \<times> bytes" where
  "decode_bytes long_value result =
     (if long_value \<ge> 256
      then decode_bytes (long_value div 256) (result @ [of_int (long_value mod 256)])
      else (long_value, result))"
  by pat_completeness auto
termination
  by (relation "measure (\<lambda>(long_value, result). nat long_value)") auto

declare decode_bytes.simps [simp del]

text \<open>
  \<^verbatim>\<open>base_decode(v, length, base)\<close>. \<^verbatim>\<open>result.append(long_value)\<close> on a
  \<^verbatim>\<open>bytearray\<close> raises \<^verbatim>\<open>ValueError\<close> unless \<open>0 \<le> long_value < 256\<close>. The function
  returns \<^verbatim>\<open>None\<close> (here \<open>Inr None\<close>) on a length mismatch.
\<close>

definition base_decode :: "pyval \<Rightarrow> nat option \<Rightarrow> int \<Rightarrow> error + bytes option" where
  "base_decode v len base =
     bind (to_bytes_ascii v) (\<lambda>v.
       if base \<noteq> 58 \<and> base \<noteq> 43 then Inl AssertionError
       else
         let chars = alphabet base;
             long_value = digits_value chars base (rev v) 0 0;
             (long_value, result) = decode_bytes long_value []
         in if long_value < 0 then Inl ValueError
            else
              let result = result @ [of_int long_value];
                  nPad = count_leading (chars ! 0) v;
                  result = result @ replicate nPad 0
              in if len \<noteq> None \<and> Some (length result) \<noteq> len then Inr None
                 else Inr (Some (rev result)))"

section \<open>Hashing primitives and minikeys\<close>

text \<open>
  The digests (\<^verbatim>\<open>hashlib\<close>, \<^verbatim>\<open>hmac\<close>), the block cipher, base64 and the group
  operations of the \<^verbatim>\<open>ecdsa\<close> package are libraries outside this module. They are
  parameters of the model, collected in one record. A library call that raises is \<open>None\<close>;
  it surfaces as \<open>LibraryError\<close>, an ordinary \<^verbatim>\<open>Exception\<close>. The field
  \<open>point_is_valid\<close> is \<^verbatim>\<open>ecdsa.ecdsa.point_is_valid(generator_secp256k1, x, y)\<close>, whose
  range test on the coordinates differs between the releases of the package.
\<close>

datatype point = INFINITY | Point int int

record library =
  sha256_digest :: "bytes \<Rightarrow> bytes"
  sha512_digest :: "bytes \<Rightarrow> bytes"
  have_ripemd :: bool
  ripemd160_digest :: "bytes \<Rightarrow> bytes"
  hmac_sha256 :: "bytes \<Rightarrow> bytes \<Rightarrow> bytes"
  hmac_sha512 :: "bytes \<Rightarrow> bytes \<Rightarrow> bytes"
  b64decode :: "pyval \<Rightarrow> bytes option"
  have_AES :: bool
  AES_cbc_decrypt :: "bytes \<Rightarrow> bytes \<Rightarrow> bytes \<Rightarrow> bytes option"
  pyaes_cbc_decrypt :: "bytes \<Rightarrow> bytes \<Rightarrow> bytes \<Rightarrow> bytes option"
  point_mul :: "point \<Rightarrow> int \<Rightarrow> point"
  point_add :: "point \<Rightarrow> point \<Rightarrow> point"
  Public_key_accepts :: "point \<Rightarrow> bool"
  point_is_valid :: "int \<Rightarrow> int \<Rightarrow> bool"
  base_sign_number :: "int \<Rightarrow> int \<Rightarrow> int option \<Rightarrow> (int \<times> int) option"
  generate_k :: "int \<Rightarrow> bytes \<Rightarrow> int"
  verifies :: "point \<Rightarrow> int \<Rightarrow> int \<times> int \<Rightarrow> bool"
  modular_sqrt :: "int \<Rightarrow> int \<Rightarrow> int option"
  inverse_mod :: "int \<Rightarrow> int \<Rightarrow> int option"
  parse_int :: "string \<Rightarrow> int option"

definition lib_call :: "'a option \<Rightarrow> error + 'a" where
  "lib_call r = (case r of None \<Rightarrow> Inl LibraryError | Some x \<Rightarrow> Inr x)"

text \<open>The UTF-8 encoding of a text whose code points are below 256.\<close>

definition utf8_char :: "char \<Rightarrow> bytes" where
  "utf8_char c =
     (let n = (of_char c :: nat)
      in if n < 128 then [of_nat n] else [of_nat (192 + n div 64), of_nat (128 + n mod 64)])"

definition to_bytes_utf8 :: "pyval \<Rightarrow> bytes" where
  "to_bytes_utf8 x = (case x of Bytes b \<Rightarrow> b | Str s \<Rightarrow> concat (map utf8_char s))"

definition sha256 :: "library \<Rightarrow> pyval \<Rightarrow> bytes" where
  "sha256 L x = sha256_digest L (to_bytes_utf8 x)"

definition Hash :: "library \<Rightarrow> pyval \<Rightarrow> bytes" where
  "Hash L x = sha256 L (Bytes (sha256 L (Bytes (to_bytes_utf8 x))))"

text \<open>
  What indexing or iterating yields: a text gives one-character texts, a byte buffer gives
  integers.
\<close>

datatype elem = Ch char | Num int

definition py_len :: "pyval \<Rightarrow> nat" where
  "py_len x = (case x of Str s \<Rightarrow> length s | Bytes b \<Rightarrow> length b)"

definition py_iter :: "pyval \<Rightarrow> elem list" where
  "py_iter x = (case x of Str s \<Rightarrow> map Ch s | Bytes b \<Rightarrow> map (\<lambda>c. Num (uint c)) b)"

text \<open>\<^verbatim>\<open>x[0]\<close>: \<^verbatim>\<open>IndexError\<close> (an \<^verbatim>\<open>Exception\<close>) on an empty operand.\<close>

definition py_first :: "pyval \<Rightarrow> error + elem" where
  "py_first x = (case py_iter x of [] \<Rightarrow> Inl (Exception ''IndexError'') | e # _ \<Rightarrow> Inr e)"

text \<open>
  \<^verbatim>\<open>c in b\<close> for a \<^verbatim>\<open>bytes\<close> object \<open>b\<close>: an integer operand is looked up (and must be
  a byte value), a text operand raises \<^verbatim>\<open>TypeError\<close>.
\<close>

definition in_bytes :: "elem \<Rightarrow> bytes \<Rightarrow> error + bool" where
  "in_bytes c b =
     (case c of
        Ch _ \<Rightarrow> Inl TypeError
      | Num n \<Rightarrow> if 0 \<le> n \<and> n < 256 then Inr (of_int n \<in> set b) else Inl ValueError)"

text \<open>\<^verbatim>\<open>all(f(c) for c in xs)\<close>: stops at the first false element or the first exception.\<close>

fun py_all :: "(elem \<Rightarrow> error + bool) \<Rightarrow> elem list \<Rightarrow> error + bool" where
  "py_all f [] = Inr True"
| "py_all f (c # cs) = bind (f c) (\<lambda>ok. if ok then py_all f cs else Inr False)"

text \<open>\<^verbatim>\<open>text + '?'\<close>: defined on a text, \<^verbatim>\<open>TypeError\<close> on bytes.\<close>

definition add_str :: "pyval \<Rightarrow> string \<Rightarrow> error + pyval" where
  "add_str x s = (case x of Str t \<Rightarrow> Inr (Str (t @ s)) | Bytes _ \<Rightarrow> Inl TypeError)"

text \<open>\<^verbatim>\<open>ord(c)\<close>: defined on a one-character text, \<^verbatim>\<open>TypeError\<close> on an integer.\<close>

definition py_ord :: "elem \<Rightarrow> error + int" where
  "py_ord c = (case c of Ch ch \<Rightarrow> Inr (of_char ch) | Num _ \<Rightarrow> Inl TypeError)"

text \<open>
  \<^verbatim>\<open>return (len(text) >= 20 and text[0] == 'S' and all(c in __b58chars for c in text)
  and ord(sha256(text + '?')[0]) == 0)\<close>, with the short-circuit of \<^verbatim>\<open>and\<close>.
\<close>

definition is_minikey :: "library \<Rightarrow> pyval \<Rightarrow> error + bool" where
  "is_minikey L text =
     (if \<not> py_len text \<ge> 20 then Inr False
      else bind (py_first text) (\<lambda>t0.
        if t0 \<noteq> Ch CHR ''S'' then Inr False
        else bind (py_all (\<lambda>c. in_bytes c b58chars) (py_iter text)) (\<lambda>ok.
          if \<not> ok then Inr False
          else bind (add_str text ''?'') (\<lambda>t.
            bind (py_first (Bytes (sha256 L t))) (\<lambda>d0.
              bind (py_ord d0) (\<lambda>n. Inr (n = 0)))))))"

definition minikey_to_private_key :: "library \<Rightarrow> pyval \<Rightarrow> bytes" where
  "minikey_to_private_key L text = sha256 L text"

section \<open>Hexadecimal texts\<close>

definition hexdigit :: "bool \<Rightarrow> nat \<Rightarrow> char" where
  "hexdigit upper d =
     (if upper then ''0123456789ABCDEF'' ! d else ''0123456789abcdef'' ! d)"

text \<open>The hexadecimal digits of a non-negative integer, without leading zeros (\<open>0\<close> is \<open>''0''\<close>).\<close>

function hex_digits :: "bool \<Rightarrow> int \<Rightarrow> string" where
  "hex_digits upper n =
     (if n < 16 then [hexdigit upper (nat n)]
      else hex_digits upper (n div 16) @ [hexdigit upper (nat (n mod 16))])"
  by pat_completeness auto
termination
  by (relation "measure (\<lambda>(upper, n). nat n)") auto

declare hex_digits.simps [simp del]

definition zero_pad :: "nat \<Rightarrow> string \<Rightarrow> string" where
  "zero_pad w s = replicate (w - length s) CHR ''0'' @ s"

text \<open>
  The \<^verbatim>\<open>%\<close>-formats \<^verbatim>\<open>'%0wx' % v\<close> and \<^verbatim>\<open>'%0wX' % v\<close>: at least \<open>w\<close> characters,
  the sign of a negative number first.
\<close>

definition format_hex :: "bool \<Rightarrow> nat \<Rightarrow> int \<Rightarrow> string" where
  "format_hex upper w v =
     (if 0 \<le> v then zero_pad w (hex_digits upper v)
      else CHR ''-'' # zero_pad (w - 1) (hex_digits upper (- v)))"

text \<open>\<^verbatim>\<open>hex(i)[2:]\<close>: \<^verbatim>\<open>hex\<close> gives \<^verbatim>\<open>0x..\<close>, and \<^verbatim>\<open>-0x..\<close> for a negative number.\<close>

definition hex_tail :: "int \<Rightarrow> string" where
  "hex_tail i =
     drop 2 (if 0 \<le> i then ''0x'' @ hex_digits False i
             else ''-0x'' @ hex_digits False (- i))"

definition hexval :: "char \<Rightarrow> nat option" where
  "hexval c =
     (let n = (of_char c :: nat)
      in if 48 \<le> n \<and> n \<le> 57 then Some (n - 48)
         else if 97 \<le> n \<and> n \<le> 102 then Some (n - 87)
         else if 65 \<le> n \<and> n \<le> 70 then Some (n - 55)
         else None)"

text \<open>The ASCII blanks: tab, line feed, vertical tab, form feed, carriage return, space.\<close>

definition blank :: "char \<Rightarrow> bool" where
  "blank c = ((of_char c :: nat) \<in> {9, 10, 11, 12, 13, 32})"

text \<open>
  \<^verbatim>\<open>bfh\<close> and \<^verbatim>\<open>bh2u\<close> of \<^verbatim>\<open>lib/util.py\<close> (not among the sources) are
  \<^verbatim>\<open>bytes.fromhex\<close> and the lower-case hexadecimal text of a buffer. \<^verbatim>\<open>bytes.fromhex\<close>
  skips blanks in front of a byte and at the end, reads two hexadecimal digits per byte,
  and raises \<^verbatim>\<open>ValueError\<close> on any other character and on a digit without its second.
\<close>

fun bfh :: "string \<Rightarrow> error + bytes" where
  "bfh [] = Inr []"
| "bfh [c] = (if blank c then Inr [] else Inl ValueError)"
| "bfh (c1 # c2 # cs) =
     (if blank c1 then bfh (c2 # cs)
      else
        (case (hexval c1, hexval c2) of
           (Some h, Some l) \<Rightarrow> bind (bfh cs) (\<lambda>bs. Inr (of_nat (16 * h + l) # bs))
         | _ \<Rightarrow> Inl ValueError))"

definition bh2u :: "bytes \<Rightarrow> string" where
  "bh2u x = concat (map (\<lambda>b. [hexdigit False (unat b div 16), hexdigit False (unat b mod 16)]) x)"

definition rev_hex :: "string \<Rightarrow> error + string" where
  "rev_hex s = bind (bfh s) (\<lambda>b. Inr (bh2u (rev b)))"

text \<open>
  \<^verbatim>\<open>s = hex(i)[2:].rstrip('L'); s = "0"*(2*length - len(s)) + s; return rev_hex(s)\<close>.
  No hexadecimal text of Python 3 ends in \<^verbatim>\<open>L\<close>.
\<close>

definition int_to_hex :: "int \<Rightarrow> nat \<Rightarrow> error + string" where
  "int_to_hex i len = rev_hex (zero_pad (2 * len) (hex_tail i))"

definition var_int :: "int \<Rightarrow> error + string" where
  "var_int i =
     (if i < 0xfd then int_to_hex i 1
      else if i \<le> 0xffff then bind (int_to_hex i 2) (\<lambda>h. Inr (''fd'' @ h))
      else if i \<le> 0xffffffff then bind (int_to_hex i 4) (\<lambda>h. Inr (''fe'' @ h))
      else bind (int_to_hex i 8) (\<lambda>h. Inr (''ff'' @ h)))"

text \<open>
  The value of a hexadecimal text, digit by digit, for stating what \<open>bfh\<close> reads; a
  character that is no digit counts as 0 and is excluded by \<open>is_hex\<close>.
\<close>

definition hex_step :: "int \<Rightarrow> char \<Rightarrow> int" where
  "hex_step acc c = acc * 16 + (case hexval c of Some d \<Rightarrow> int d | None \<Rightarrow> 0)"

definition hex_int :: "string \<Rightarrow> int" where
  "hex_int s = foldl hex_step 0 s"

definition is_hex :: "string \<Rightarrow> bool" where
  "is_hex s = list_all (\<lambda>c. hexval c \<noteq> None) s"

section \<open>Numbers and byte strings (\<^verbatim>\<open>ecdsa.util\<close>)\<close>

definition be_int :: "bytes \<Rightarrow> int" where
  "be_int bs = foldl (\<lambda>acc b. acc * 256 + uint b) 0 bs"

definition be_bytes :: "nat \<Rightarrow> int \<Rightarrow> bytes" where
  "be_bytes n v = map (\<lambda>i. of_int (v div 256 ^ (n - 1 - i))) [0..<n]"

text \<open>
  \<^verbatim>\<open>string_to_number(s) = int(binascii.hexlify(s), 16)\<close>: the big-endian value;
  \<^verbatim>\<open>int('', 16)\<close> raises \<^verbatim>\<open>ValueError\<close>.
\<close>

definition string_to_number :: "bytes \<Rightarrow> error + int" where
  "string_to_number s = (if s = [] then Inl ValueError else Inr (be_int s))"

text \<open>
  \<^verbatim>\<open>number_to_string(num, order)\<close> for the 32-byte order of secp256k1: the text
  \<^verbatim>\<open>'%064x' % num\<close> is unhexlified (\<^verbatim>\<open>binascii.Error\<close>, a \<^verbatim>\<open>ValueError\<close>, on a
  sign or an odd number of digits) and asserted to be 32 bytes long.
\<close>

definition number_to_string :: "int \<Rightarrow> error + bytes" where
  "number_to_string num =
     bind (bfh (format_hex False 64 num)) (\<lambda>b.
       if length b \<noteq> 32 then Inl AssertionError else Inr b)"

section \<open>The curve secp256k1\<close>

record curve =
  curve_p :: int
  curve_a :: int
  curve_b :: int

definition curve_secp256k1 :: curve where
  "curve_secp256k1 =
     \<lparr> curve_p = 0xFFFFFFFFFFFFFFFFFFFFFFFFFFFFFFFFFFFFFFFFFFFFFFFFFFFFFFFEFFFFFC2F,
       curve_a = 0, curve_b = 7 \<rparr>"

definition order :: int where
  "order = 0xFFFFFFFFFFFFFFFFFFFFFFFFFFFFFFFEBAAEDCE6AF48A03BBFD25E8CD0364141"

definition generator_secp256k1 :: point where
  "generator_secp256k1 =
     Point 0x79BE667EF9DCBBAC55A06295CE870B07029BFCDB2DCE28D959F2815B16F81798
           0x483ADA7726A3C4655DA4FBFC0E1108A8FD17B448A68554199C47D08FFB10D4B8"

text \<open>\<^verbatim>\<open>CurveFp.contains_point(x, y)\<close>: \<^verbatim>\<open>(y*y - (x*x*x + a*x + b)) % p == 0\<close>.\<close>

definition contains_point :: "curve \<Rightarrow> int \<Rightarrow> int \<Rightarrow> bool" where
  "contains_point c x y = ((y * y - (x * x * x + curve_a c * x + curve_b c)) mod curve_p c = 0)"

text \<open>
  The constructor \<^verbatim>\<open>Point(curve, x, y, order)\<close> of the \<^verbatim>\<open>ecdsa\<close> package asserts
  that the point is on the curve and that \<^verbatim>\<open>order * point\<close> is the point at infinity.
\<close>

definition new_Point :: "library \<Rightarrow> int \<Rightarrow> int \<Rightarrow> error + point" where
  "new_Point L x y =
     (if \<not> contains_point curve_secp256k1 x y then Inl AssertionError
      else if point_mul L (Point x y) order \<noteq> INFINITY then Inl AssertionError
      else Inr (Point x y))"

text \<open>The builtin \<^verbatim>\<open>pow(x, e, m)\<close> for \<open>e \<ge> 0\<close> and \<open>m > 0\<close>.\<close>

definition py_pow :: "int \<Rightarrow> int \<Rightarrow> int \<Rightarrow> int" where
  "py_pow x e m = x ^ nat e mod m"

section \<open>Points and their serialisation\<close>

text \<open>
  \<^verbatim>\<open>ECC_YfromX(x, curved, odd)\<close>: the loop \<^verbatim>\<open>for offset in range(128)\<close>, counted down
  by its first argument, and the \<^verbatim>\<open>raise\<close> after it.
\<close>

fun ECC_YfromX_loop :: "nat \<Rightarrow> int \<Rightarrow> int \<Rightarrow> curve \<Rightarrow> bool \<Rightarrow> error + int \<times> int" where
  "ECC_YfromX_loop 0 offset x curved odd_y = Inl (Exception ''ECC_YfromX: No Y found'')"
| "ECC_YfromX_loop (Suc n) offset x curved odd_y =
     (let Mx = x + offset;
          My2 = py_pow Mx 3 (curve_p curved) + curve_a curved * py_pow Mx 2 (curve_p curved)
                + curve_b curved mod curve_p curved;
          My = py_pow My2 ((curve_p curved + 1) div 4) (curve_p curved)
      in if contains_point curved Mx My
         then (if odd_y = (My AND 1 \<noteq> 0) then Inr (My, offset)
               else Inr (curve_p curved - My, offset))
         else ECC_YfromX_loop n (offset + 1) x curved odd_y)"

definition ECC_YfromX :: "int \<Rightarrow> curve \<Rightarrow> bool \<Rightarrow> error + int \<times> int" where
  "ECC_YfromX x curved odd_y = ECC_YfromX_loop 128 0 x curved odd_y"

text \<open>
  \<^verbatim>\<open>point_to_ser(P, comp)\<close>. The coordinates of the point at infinity are \<^verbatim>\<open>None\<close>, on
  which \<^verbatim>\<open>&\<close> and \<^verbatim>\<open>%\<close> raise \<^verbatim>\<open>TypeError\<close>.
\<close>

definition point_to_ser :: "point \<Rightarrow> bool \<Rightarrow> error + bytes" where
  "point_to_ser P is_comp =
     (case P of
        INFINITY \<Rightarrow> Inl TypeError
      | Point x y \<Rightarrow>
          if is_comp then bfh (format_hex False 2 (2 + (y AND 1)) @ format_hex False 64 x)
          else bfh (''04'' @ format_hex False 64 x @ format_hex False 64 y))"

text \<open>\<^verbatim>\<open>ser_to_point(Aser)\<close>; \<^verbatim>\<open>Aser[0]\<close> of an empty buffer raises \<^verbatim>\<open>IndexError\<close>.\<close>

definition ser_to_point :: "library \<Rightarrow> bytes \<Rightarrow> error + point" where
  "ser_to_point L Aser =
     (case Aser of
        [] \<Rightarrow> Inl (Exception ''IndexError'')
      | t # _ \<Rightarrow>
          if t \<notin> {0x02, 0x03, 0x04} then Inl AssertionError
          else if t = 0x04 then
            bind (string_to_number (take 32 (drop 1 Aser))) (\<lambda>x.
            bind (string_to_number (drop 33 Aser)) (\<lambda>y. new_Point L x y))
          else
            bind (string_to_number (drop 1 Aser)) (\<lambda>Mx.
            bind (ECC_YfromX Mx curve_secp256k1 (t = 0x03)) (\<lambda>(My, offset). new_Point L Mx My)))"

text \<open>\<^verbatim>\<open>GetPubKey(pubkey, compressed) = i2o_ECPublicKey(pubkey, compressed)\<close>.\<close>

definition GetPubKey :: "point \<Rightarrow> bool \<Rightarrow> error + bytes" where
  "GetPubKey pubkey compressed =
     (case pubkey of
        INFINITY \<Rightarrow> Inl TypeError
      | Point x y \<Rightarrow>
          if compressed then
            (if y AND 1 \<noteq> 0 then bfh (''03'' @ format_hex False 64 x)
             else bfh (''02'' @ format_hex False 64 x))
          else bfh (''04'' @ format_hex False 64 x @ format_hex False 64 y))"

section \<open>Keys\<close>

record EC_KEY =
  pubkey :: point
  secret :: int

text \<open>
  \<^verbatim>\<open>EC_KEY.__init__(k)\<close>. The constructor \<^verbatim>\<open>ecdsa.ecdsa.Public_key(generator, point)\<close>
  raises when it does not accept the point.
\<close>

definition EC_KEY_init :: "library \<Rightarrow> bytes \<Rightarrow> error + EC_KEY" where
  "EC_KEY_init L k =
     bind (string_to_number k) (\<lambda>n.
       let P = point_mul L generator_secp256k1 n
       in if Public_key_accepts L P then Inr \<lparr> pubkey = P, secret = n \<rparr>
          else Inl LibraryError)"

section \<open>BIP32 child derivation\<close>

definition BIP32_PRIME :: int where
  "BIP32_PRIME = 0x80000000"

text \<open>The index argument of both derivations: \<^verbatim>\<open>bfh(rev_hex(int_to_hex(n,4)))\<close>.\<close>

definition index_bytes :: "int \<Rightarrow> error + bytes" where
  "index_bytes n = bind (bind (int_to_hex n 4) rev_hex) bfh"

definition CKD_priv_inner :: "library \<Rightarrow> bytes \<Rightarrow> bytes \<Rightarrow> bytes \<Rightarrow> int \<Rightarrow> error + bytes \<times> bytes" where
  "CKD_priv_inner L k c s is_prime =
     bind (EC_KEY_init L k) (\<lambda>keypair.
     bind (GetPubKey (pubkey keypair) True) (\<lambda>cK.
       let data = (if is_prime \<noteq> 0 then [0] @ k @ s else cK @ s);
           I = hmac_sha512 L c data
       in bind (string_to_number (take 32 I)) (\<lambda>I_left.
          bind (string_to_number k) (\<lambda>k_int.
          bind (number_to_string ((I_left + k_int) mod order)) (\<lambda>k_n.
            Inr (k_n, drop 32 I))))))"

definition CKD_priv :: "library \<Rightarrow> bytes \<Rightarrow> bytes \<Rightarrow> int \<Rightarrow> error + bytes \<times> bytes" where
  "CKD_priv L k c n =
     (let is_prime = n AND BIP32_PRIME
      in bind (index_bytes n) (\<lambda>s. CKD_priv_inner L k c s is_prime))"

text \<open>
  \<^verbatim>\<open>_CKD_pub(cK, c, s)\<close>. \<^verbatim>\<open>VerifyingKey.from_public_point\<close> builds an
  \<^verbatim>\<open>ecdsa.ecdsa.Public_key\<close> of the point.
\<close>

definition CKD_pub_inner :: "library \<Rightarrow> bytes \<Rightarrow> bytes \<Rightarrow> bytes \<Rightarrow> error + bytes \<times> bytes" where
  "CKD_pub_inner L cK c s =
     (let I = hmac_sha512 L c (cK @ s)
      in bind (string_to_number (take 32 I)) (\<lambda>I_left.
         bind (ser_to_point L cK) (\<lambda>K.
           let pubkey_point = point_add L (point_mul L generator_secp256k1 I_left) K
           in if \<not> Public_key_accepts L pubkey_point then Inl LibraryError
              else bind (GetPubKey pubkey_point True) (\<lambda>cK_n. Inr (cK_n, drop 32 I)))))"

text \<open>
  \<^verbatim>\<open>if n & BIP32_PRIME: raise\<close>: a bare \<^verbatim>\<open>raise\<close> outside a handler raises
  \<^verbatim>\<open>RuntimeError\<close> (no active exception to re-raise).
\<close>

definition CKD_pub :: "library \<Rightarrow> bytes \<Rightarrow> bytes \<Rightarrow> int \<Rightarrow> error + bytes \<times> bytes" where
  "CKD_pub L cK c n =
     (if n AND BIP32_PRIME \<noteq> 0 then Inl NoActiveException
      else bind (index_bytes n) (\<lambda>s. CKD_pub_inner L cK c s))"

section \<open>Signing\<close>

text \<open>
  \<^verbatim>\<open>ecdsa.util.sigencode_string\<close> and \<^verbatim>\<open>sigdecode_string\<close>: the two numbers as 32 bytes
  each; the decoder asserts the length 64.
\<close>

definition sigencode_string :: "int \<Rightarrow> int \<Rightarrow> error + bytes" where
  "sigencode_string r s =
     bind (number_to_string r) (\<lambda>r_str.
     bind (number_to_string s) (\<lambda>s_str. Inr (r_str @ s_str)))"

definition sigdecode_string :: "bytes \<Rightarrow> error + int \<times> int" where
  "sigdecode_string signature =
     (if length signature \<noteq> 64 then Inl AssertionError
      else Inr (be_int (take 32 signature), be_int (drop 32 signature)))"

text \<open>
  \<^verbatim>\<open>MySigningKey.sign_number(number, entropy, k)\<close>: the signature of the base class
  \<^verbatim>\<open>ecdsa.SigningKey\<close>, then \<^verbatim>\<open>if s > order//2: s = order - s\<close>.
\<close>

definition MySigningKey_sign_number ::
    "library \<Rightarrow> int \<Rightarrow> int \<Rightarrow> int option \<Rightarrow> error + int \<times> int" where
  "MySigningKey_sign_number L secexp number k =
     bind (lib_call (base_sign_number L secexp number k)) (\<lambda>(r, s).
       let s = (if s > order div 2 then order - s else s)
       in Inr (r, s))"

text \<open>
  The inherited methods of \<^verbatim>\<open>ecdsa.SigningKey\<close>, which call the overriding
  \<^verbatim>\<open>sign_number\<close>: \<^verbatim>\<open>sign_digest\<close> refuses a digest of more than 32 bytes, signs its
  number and encodes the pair; \<^verbatim>\<open>sign_digest_deterministic\<close> derives \<open>k\<close> (RFC 6979) first.
\<close>

definition sign_digest :: "library \<Rightarrow> int \<Rightarrow> bytes \<Rightarrow> int option \<Rightarrow> error + bytes" where
  "sign_digest L secexp digest k =
     (if length digest > 32 then Inl LibraryError
      else bind (string_to_number digest) (\<lambda>number.
           bind (MySigningKey_sign_number L secexp number k) (\<lambda>(r, s).
             sigencode_string r s)))"

definition sign_digest_deterministic :: "library \<Rightarrow> int \<Rightarrow> bytes \<Rightarrow> error + bytes" where
  "sign_digest_deterministic L secexp digest =
     sign_digest L secexp digest (Some (generate_k L secexp digest))"

text \<open>
  \<^verbatim>\<open>VerifyingKey.verify_digest(signature, digest, sigdecode_string)\<close>: returns
  \<^verbatim>\<open>True\<close> or raises.
\<close>

definition verify_digest :: "library \<Rightarrow> point \<Rightarrow> bytes \<Rightarrow> bytes \<Rightarrow> error + bool" where
  "verify_digest L public_key signature digest =
     (if length digest > 32 then Inl LibraryError
      else bind (string_to_number digest) (\<lambda>number.
           bind (sigdecode_string signature) (\<lambda>sig.
             if verifies L public_key number sig then Inr True else Inl LibraryError)))"

text \<open>
  \<^verbatim>\<open>EC_KEY.sign(msg_hash)\<close>. \<^verbatim>\<open>from_secret_exponent\<close> asserts
  \<^verbatim>\<open>1 <= secexp < n\<close> and builds the public key of \<^verbatim>\<open>generator * secexp\<close>.
\<close>

definition EC_KEY_sign :: "library \<Rightarrow> EC_KEY \<Rightarrow> bytes \<Rightarrow> error + bytes" where
  "EC_KEY_sign L self msg_hash =
     (if \<not> (1 \<le> secret self \<and> secret self < order) then Inl AssertionError
      else
        let public_key = point_mul L generator_secp256k1 (secret self)
        in if \<not> Public_key_accepts L public_key then Inl LibraryError
           else bind (sign_digest_deterministic L (secret self) msg_hash) (\<lambda>signature.
                bind (verify_digest L public_key signature msg_hash) (\<lambda>ok.
                  if ok then Inr signature else Inl AssertionError)))"

section \<open>ECIES decryption\<close>

text \<open>
  What a run does with the message authentication code and with the block cipher is
  recorded: \<open>MacComputed\<close> when the HMAC of the envelope is computed, \<open>CipherRun key iv data\<close>
  when the block cipher is run over \<open>data\<close>.
\<close>

datatype event = MacComputed | CipherRun bytes bytes bytes

text \<open>
  \<^verbatim>\<open>aes_decrypt_with_iv(key, iv, data)\<close>. With \<^verbatim>\<open>Cryptodome\<close> the decrypted buffer is
  indexed (\<^verbatim>\<open>IndexError\<close> when empty) and \<^verbatim>\<open>ord\<close> is applied to the integer found,
  which raises \<^verbatim>\<open>TypeError\<close>; without it \<^verbatim>\<open>pyaes\<close> decrypts and strips the padding.
\<close>

definition aes_decrypt_with_iv ::
    "library \<Rightarrow> bytes \<Rightarrow> bytes \<Rightarrow> bytes \<Rightarrow> (error + bytes) \<times> event list" where
  "aes_decrypt_with_iv L key iv data =
     (if have_AES L then
        (bind (lib_call (AES_cbc_decrypt L key iv data)) (\<lambda>data.
           if data = [] then Inl (Exception ''IndexError'') else Inl TypeError),
         [CipherRun key iv data])
      else (lib_call (pyaes_cbc_decrypt L key iv data), [CipherRun key iv data]))"

definition BIE1 :: bytes where
  "BIE1 = map byte_of_char ''BIE1''"

text \<open>
  \<^verbatim>\<open>EC_KEY.decrypt_message(encrypted)\<close>: the result and the events of the run. Only an
  \<^verbatim>\<open>AssertionError\<close> of \<^verbatim>\<open>ser_to_point\<close> is turned into the pubkey error.
\<close>

definition decrypt_message ::
    "library \<Rightarrow> EC_KEY \<Rightarrow> pyval \<Rightarrow> (error + bytes) \<times> event list" where
  "decrypt_message L self encrypted =
     (case b64decode L encrypted of
        None \<Rightarrow> (Inl LibraryError, [])
      | Some encrypted \<Rightarrow>
          if length encrypted < 85 then (Inl (Exception ''invalid ciphertext: length''), [])
          else
            let magic = take 4 encrypted;
                ephemeral_pubkey = take 33 (drop 4 encrypted);
                ciphertext = drop 37 (take (length encrypted - 32) encrypted);
                mac = drop (length encrypted - 32) encrypted
            in if magic \<noteq> BIE1
               then (Inl (Exception ''invalid ciphertext: invalid magic bytes''), [])
               else
                 (case ser_to_point L ephemeral_pubkey of
                    Inl e \<Rightarrow>
                      (if e = AssertionError
                       then (Inl (Exception ''invalid ciphertext: invalid ephemeral pubkey''), [])
                       else (Inl e, []))
                  | Inr INFINITY \<Rightarrow> (Inl TypeError, [])
                  | Inr (Point x y) \<Rightarrow>
                      if \<not> point_is_valid L x y
                      then (Inl (Exception ''invalid ciphertext: invalid ephemeral pubkey''), [])
                      else
                        (case point_to_ser (point_mul L (Point x y) (secret self)) True of
                           Inl e \<Rightarrow> (Inl e, [])
                         | Inr ecdh_key \<Rightarrow>
                             let key = sha512_digest L ecdh_key;
                                 iv = take 16 key;
                                 key_e = take 16 (drop 16 key);
                                 key_m = drop 32 key
                             in if mac \<noteq> hmac_sha256 L key_m
                                          (take (length encrypted - 32) encrypted)
                                then (Inl InvalidPassword, [MacComputed])
                                else
                                  (let (r, events) = aes_decrypt_with_iv L key_e iv ciphertext
                                   in (r, MacComputed # events)))))"

section \<open>Addresses\<close>

text \<open>The module-level network constants, which \<^verbatim>\<open>set_testnet\<close> replaces.\<close>

record network =
  TESTNET :: bool
  ADDRTYPE_P2PKH :: int
  ADDRTYPE_P2SH :: int
  ADDRTYPE_P2WPKH :: int
  XPRV_HEADER :: int
  XPUB_HEADER :: int

definition mainnet :: network where
  "mainnet = \<lparr> TESTNET = False, ADDRTYPE_P2PKH = 0, ADDRTYPE_P2SH = 5, ADDRTYPE_P2WPKH = 6,
       XPRV_HEADER = 0x0488ade4, XPUB_HEADER = 0x0488b21e \<rparr>"

text \<open>\<^verbatim>\<open>bytes([i])\<close> raises \<^verbatim>\<open>ValueError\<close> unless \<open>0 \<le> i < 256\<close>.\<close>

definition bytes1 :: "int \<Rightarrow> error + bytes" where
  "bytes1 i = (if 0 \<le> i \<and> i < 256 then Inr [of_int i] else Inl ValueError)"

text \<open>\<^verbatim>\<open>hash_160(public_key)\<close>; \<^verbatim>\<open>hashlib.new('ripemd')\<close> raises where the digest is missing.\<close>

definition hash_160 :: "library \<Rightarrow> pyval \<Rightarrow> error + bytes" where
  "hash_160 L public_key =
     (if \<not> have_ripemd L then Inl LibraryError
      else bind (to_bytes_ascii public_key) (\<lambda>public_key.
             Inr (ripemd160_digest L (sha256 L (Bytes public_key)))))"

definition hash_160_to_bc_address ::
    "network \<Rightarrow> library \<Rightarrow> bytes \<Rightarrow> int \<Rightarrow> int \<Rightarrow> error + string" where
  "hash_160_to_bc_address N L h160 addrtype witness_program_version =
     bind (bytes1 addrtype) (\<lambda>s.
     bind (if addrtype = ADDRTYPE_P2WPKH N
           then bind (bytes1 witness_program_version) (\<lambda>w. Inr (s @ w @ [0]))
           else Inr s) (\<lambda>s.
       let s = s @ h160
       in base_encode (s @ take 4 (Hash L (Bytes s))) 58))"

definition public_key_to_p2pkh :: "network \<Rightarrow> library \<Rightarrow> bytes \<Rightarrow> error + string" where
  "public_key_to_p2pkh N L public_key =
     bind (hash_160 L (Bytes public_key)) (\<lambda>h160.
       hash_160_to_bc_address N L h160 (ADDRTYPE_P2PKH N) 1)"

section \<open>Signed messages\<close>

definition msg_magic :: "bytes \<Rightarrow> error + bytes" where
  "msg_magic message =
     bind (var_int (int (length message))) (\<lambda>varint.
       let encoded_varint = map byte_of_char varint
       in Inr (0x18 # map byte_of_char ''Bitcoin Signed Message:'' @ [0x0a]
               @ encoded_varint @ message))"

text \<open>
  \<^verbatim>\<open>MyVerifyingKey.from_signature(sig, recid, h, curve)\<close>; the result is the public
  point. \<^verbatim>\<open>msqr.modular_sqrt\<close> (\<^verbatim>\<open>lib/msqr.py\<close>, not among the sources) and
  \<^verbatim>\<open>numbertheory.inverse_mod\<close> are calls into the library record.
\<close>

definition from_signature :: "library \<Rightarrow> bytes \<Rightarrow> int \<Rightarrow> bytes \<Rightarrow> error + point" where
  "from_signature L sig recid h =
     bind (sigdecode_string sig) (\<lambda>(r, s).
       let x = r + (recid div 2) * order;
           alpha = (x * x * x + curve_a curve_secp256k1 * x + curve_b curve_secp256k1)
                     mod curve_p curve_secp256k1
       in bind (lib_call (modular_sqrt L alpha (curve_p curve_secp256k1))) (\<lambda>beta.
            let y = (if (beta - recid) mod 2 = 0 then beta else curve_p curve_secp256k1 - beta)
            in bind (new_Point L x y) (\<lambda>R.
               bind (string_to_number h) (\<lambda>e.
                 let minus_e = (- e) mod order
                 in bind (lib_call (inverse_mod L r order)) (\<lambda>inv_r.
                      let Q = point_mul L (point_add L (point_mul L R s)
                                (point_mul L generator_secp256k1 minus_e)) inv_r
                      in if Public_key_accepts L Q then Inr Q else Inl LibraryError)))))"

definition pubkey_from_signature :: "library \<Rightarrow> bytes \<Rightarrow> bytes \<Rightarrow> error + point \<times> bool" where
  "pubkey_from_signature L sig message =
     (if length sig \<noteq> 65 then Inl (Exception ''Wrong encoding'')
      else
        let nV = uint (hd sig)
        in if nV < 27 \<or> nV \<ge> 35 then Inl (Exception ''Bad encoding'')
           else
             let (compressed, nV) = (if nV \<ge> 31 then (True, nV - 4) else (False, nV));
                 recid = nV - 27
             in bind (msg_magic message) (\<lambda>m.
                  let h = Hash L (Bytes m)
                  in bind (from_signature L (drop 1 sig) recid h) (\<lambda>public_key.
                       Inr (public_key, compressed))))"

text \<open>
  \<^verbatim>\<open>except Exception\<close> lets only what is no \<^verbatim>\<open>Exception\<close> through: of the errors of
  this module, the \<^verbatim>\<open>BaseException\<close> that \<^verbatim>\<open>deserialize_xkey\<close> raises.
\<close>

definition is_Exception :: "error \<Rightarrow> bool" where
  "is_Exception e = (case e of BaseException _ \<Rightarrow> False | _ \<Rightarrow> True)"

text \<open>The body of the \<^verbatim>\<open>try\<close> block of \<^verbatim>\<open>verify_message\<close>, up to \<^verbatim>\<open>return True\<close>.\<close>

definition verify_message_try ::
    "network \<Rightarrow> library \<Rightarrow> pyval \<Rightarrow> bytes \<Rightarrow> bytes \<Rightarrow> error + bool" where
  "verify_message_try N L address sig message =
     bind (pubkey_from_signature L sig message) (\<lambda>(public_key, compressed).
     bind (point_to_ser public_key compressed) (\<lambda>pubkey.
     bind (public_key_to_p2pkh N L pubkey) (\<lambda>addr.
       if address \<noteq> Str addr then Inl (Exception ''Bad signature'')
       else bind (msg_magic message) (\<lambda>m.
              let h = Hash L (Bytes m)
              in bind (verify_digest L public_key (drop 1 sig) h) (\<lambda>_. Inr True)))))"

text \<open>
  \<^verbatim>\<open>verify_message(address, sig, message)\<close>. \<^verbatim>\<open>assert_bytes(sig, message)\<close> of
  \<^verbatim>\<open>lib/util.py\<close> (not among the sources) asserts that its arguments are bytes; it stands
  before the \<^verbatim>\<open>try\<close>. \<^verbatim>\<open>print_error\<close> in the handler only logs.
\<close>

definition verify_message ::
    "network \<Rightarrow> library \<Rightarrow> pyval \<Rightarrow> pyval \<Rightarrow> pyval \<Rightarrow> error + bool" where
  "verify_message N L address sig message =
     (case (sig, message) of
        (Bytes sig, Bytes message) \<Rightarrow>
          (case verify_message_try N L address sig message of
             Inr r \<Rightarrow> Inr r
           | Inl e \<Rightarrow> if is_Exception e then Inr False else Inl e)
      | _ \<Rightarrow> Inl AssertionError)"

section \<open>Extended keys\<close>

definition EncodeBase58Check :: "library \<Rightarrow> bytes \<Rightarrow> error + string" where
  "EncodeBase58Check L vchIn = base_encode (vchIn @ take 4 (Hash L (Bytes vchIn))) 58"

text \<open>
  \<^verbatim>\<open>DecodeBase58Check(psz)\<close>: \<^verbatim>\<open>vchRet[0:-4]\<close> and \<^verbatim>\<open>vchRet[-4:]\<close>; the result is
  \<^verbatim>\<open>None\<close> on a wrong checksum. Slicing \<^verbatim>\<open>None\<close> would raise \<^verbatim>\<open>TypeError\<close>.
\<close>

definition DecodeBase58Check :: "library \<Rightarrow> pyval \<Rightarrow> error + bytes option" where
  "DecodeBase58Check L psz =
     bind (base_decode psz None 58) (\<lambda>vchRet.
       case vchRet of
         None \<Rightarrow> Inl TypeError
       | Some vchRet \<Rightarrow>
           let key = take (length vchRet - 4) vchRet;
               csum = drop (length vchRet - 4) vchRet;
               cs32 = take 4 (Hash L (Bytes key))
           in if cs32 \<noteq> csum then Inr None else Inr (Some key))"

text \<open>
  \<^verbatim>\<open>get_pubkeys_from_secret(secret)\<close>. \<^verbatim>\<open>SigningKey.from_string\<close> asserts the length
  32 and \<^verbatim>\<open>1 <= secexp < n\<close>; \<^verbatim>\<open>to_string\<close> is the two coordinates as 32 bytes each.
\<close>

definition get_pubkeys_from_secret :: "library \<Rightarrow> bytes \<Rightarrow> error + bytes \<times> bytes" where
  "get_pubkeys_from_secret L k =
     (if length k \<noteq> 32 then Inl AssertionError
      else bind (string_to_number k) (\<lambda>secexp.
        if \<not> (1 \<le> secexp \<and> secexp < order) then Inl AssertionError
        else
          let public_key = point_mul L generator_secp256k1 secexp
          in if \<not> Public_key_accepts L public_key then Inl LibraryError
             else
               bind (case public_key of
                       INFINITY \<Rightarrow> Inl TypeError
                     | Point x y \<Rightarrow>
                         bind (number_to_string x) (\<lambda>xs.
                         bind (number_to_string y) (\<lambda>ys. Inr (xs @ ys)))) (\<lambda>K.
               bind (GetPubKey public_key True) (\<lambda>K_compressed. Inr (K, K_compressed)))))"

definition xprv_header :: "network \<Rightarrow> int \<Rightarrow> error + bytes" where
  "xprv_header N xtype = bfh (format_hex False 8 (XPRV_HEADER N + xtype))"

definition xpub_header :: "network \<Rightarrow> int \<Rightarrow> error + bytes" where
  "xpub_header N xtype = bfh (format_hex False 8 (XPUB_HEADER N + xtype))"

definition serialize_xprv ::
    "network \<Rightarrow> library \<Rightarrow> int \<Rightarrow> bytes \<Rightarrow> bytes \<Rightarrow> int \<Rightarrow> bytes \<Rightarrow> bytes \<Rightarrow> error + string" where
  "serialize_xprv N L xtype c k depth fingerprint child_number =
     bind (xprv_header N xtype) (\<lambda>header.
     bind (bytes1 depth) (\<lambda>d.
       EncodeBase58Check L (header @ d @ fingerprint @ child_number @ c @ [0] @ k)))"

definition serialize_xpub ::
    "network \<Rightarrow> library \<Rightarrow> int \<Rightarrow> bytes \<Rightarrow> bytes \<Rightarrow> int \<Rightarrow> bytes \<Rightarrow> bytes \<Rightarrow> error + string" where
  "serialize_xpub N L xtype c cK depth fingerprint child_number =
     bind (xpub_header N xtype) (\<lambda>header.
     bind (bytes1 depth) (\<lambda>d.
       EncodeBase58Check L (header @ d @ fingerprint @ child_number @ c @ cK)))"

text \<open>
  \<^verbatim>\<open>deserialize_xkey(xkey, prv)\<close>: \<^verbatim>\<open>len(None)\<close> raises \<^verbatim>\<open>TypeError\<close>; the header is
  the big-endian value of the first four of the 78 bytes.
\<close>

definition deserialize_xkey ::
    "network \<Rightarrow> library \<Rightarrow> pyval \<Rightarrow> bool \<Rightarrow> error + int \<times> int \<times> bytes \<times> bytes \<times> bytes \<times> bytes" where
  "deserialize_xkey N L xkey prv =
     bind (DecodeBase58Check L xkey) (\<lambda>xkey.
       case xkey of
         None \<Rightarrow> Inl TypeError
       | Some xkey \<Rightarrow>
           if length xkey \<noteq> 78 then Inl (BaseException ''Invalid length'')
           else
             let depth = uint (xkey ! 4);
                 fingerprint = take 4 (drop 5 xkey);
                 child_number = take 4 (drop 9 xkey);
                 c = take 32 (drop 13 xkey);
                 header = (if prv then XPRV_HEADER N else XPUB_HEADER N);
                 xtype = be_int (take 4 xkey) - header
             in if xtype \<notin> set (if TESTNET N then [0, 1] else [0])
                then Inl (BaseException ''Invalid header'')
                else
                  let n = (if prv then 33 else 32);
                      K_or_k = drop (13 + n) xkey
                  in Inr (xtype, depth, fingerprint, child_number, c, K_or_k))"

definition deserialize_xpub ::
    "network \<Rightarrow> library \<Rightarrow> pyval \<Rightarrow> error + int \<times> int \<times> bytes \<times> bytes \<times> bytes \<times> bytes" where
  "deserialize_xpub N L xkey = deserialize_xkey N L xkey False"

definition deserialize_xprv ::
    "network \<Rightarrow> library \<Rightarrow> pyval \<Rightarrow> error + int \<times> int \<times> bytes \<times> bytes \<times> bytes \<times> bytes" where
  "deserialize_xprv N L xkey = deserialize_xkey N L xkey True"

definition xpub_from_xprv :: "network \<Rightarrow> library \<Rightarrow> pyval \<Rightarrow> error + string" where
  "xpub_from_xprv N L xprv =
     bind (deserialize_xprv N L xprv) (\<lambda>(xtype, depth, fingerprint, child_number, c, k).
     bind (get_pubkeys_from_secret L k) (\<lambda>(K, cK).
       serialize_xpub N L xtype c cK depth fingerprint child_number))"

section \<open>Derivation along a path\<close>

text \<open>\<^verbatim>\<open>s.split(sep)\<close> for a one-character separator.\<close>

fun split :: "char \<Rightarrow> string \<Rightarrow> string list" where
  "split sep [] = [[]]"
| "split sep (c # cs) =
     (if c = sep then [] # split sep cs
      else (case split sep cs of [] \<Rightarrow> [[c]] | w # ws \<Rightarrow> (c # w) # ws))"

definition startswith :: "string \<Rightarrow> string \<Rightarrow> bool" where
  "startswith s t = (take (length t) s = t)"

text \<open>
  The variables of the loop of \<^verbatim>\<open>bip32_private_derivation\<close>: \<open>i\<close> and \<open>parent_k\<close> are
  unbound until the loop body has run once.
\<close>

record priv_state =
  ps_i :: "int option"
  ps_parent_k :: "bytes option"
  ps_k :: bytes
  ps_c :: bytes
  ps_depth :: int

text \<open>
  \<^verbatim>\<open>for n in sequence.split('/'): if n == '': continue; i = int(n[:-1]) + BIP32_PRIME if
  n[-1] == "'" else int(n); parent_k = k; k, c = CKD_priv(k, c, i); depth += 1\<close>. The builtin
  \<^verbatim>\<open>int\<close> is \<open>parse_int\<close> of the library record.
\<close>

fun private_loop :: "library \<Rightarrow> string list \<Rightarrow> priv_state \<Rightarrow> error + priv_state" where
  "private_loop L [] st = Inr st"
| "private_loop L (n # ns) st =
     (if n = [] then private_loop L ns st
      else
        bind (if last n = CHR 0x27
              then bind (lib_call (parse_int L (butlast n))) (\<lambda>v. Inr (v + BIP32_PRIME))
              else lib_call (parse_int L n)) (\<lambda>i.
        bind (CKD_priv L (ps_k st) (ps_c st) i) (\<lambda>(k, c).
          private_loop L ns
            \<lparr> ps_i = Some i, ps_parent_k = Some (ps_k st), ps_k = k, ps_c = c,
              ps_depth = ps_depth st + 1 \<rparr>)))"

definition bip32_private_derivation ::
    "network \<Rightarrow> library \<Rightarrow> string \<Rightarrow> string \<Rightarrow> string \<Rightarrow> error + string \<times> string" where
  "bip32_private_derivation N L xprv branch sequence =
     (if \<not> startswith sequence branch then Inl AssertionError
      else if branch = sequence
      then bind (xpub_from_xprv N L (Str xprv)) (\<lambda>xpub. Inr (xprv, xpub))
      else
        bind (deserialize_xprv N L (Str xprv)) (\<lambda>(xtype, depth, fingerprint, child_number, c, k).
          let sequence = drop (length branch) sequence
          in bind (private_loop L (split CHR ''/'' sequence)
                     \<lparr> ps_i = None, ps_parent_k = None, ps_k = k, ps_c = c, ps_depth = depth \<rparr>)
               (\<lambda>st.
                 case (ps_parent_k st, ps_i st) of
                   (Some parent_k, Some i) \<Rightarrow>
                     bind (get_pubkeys_from_secret L parent_k) (\<lambda>(_, parent_cK).
                     bind (hash_160 L (Bytes parent_cK)) (\<lambda>h.
                       let fingerprint = take 4 h
                       in bind (bfh (format_hex True 8 i)) (\<lambda>child_number.
                          bind (get_pubkeys_from_secret L (ps_k st)) (\<lambda>(K, cK).
                          bind (serialize_xpub N L xtype (ps_c st) cK (ps_depth st)
                                  fingerprint child_number) (\<lambda>xpub.
                          bind (serialize_xprv N L xtype (ps_c st) (ps_k st) (ps_depth st)
                                  fingerprint child_number) (\<lambda>xprv.
                            Inr (xprv, xpub)))))))
                 | _ \<Rightarrow> Inl UnboundLocalError)))"

record pub_state =
  pb_i :: "int option"
  pb_parent_cK :: "bytes option"
  pb_cK :: bytes
  pb_c :: bytes
  pb_depth :: int

text \<open>
  \<^verbatim>\<open>for n in sequence.split('/'): if n == '': continue; i = int(n); parent_cK = cK;
  cK, c = CKD_pub(cK, c, i); depth += 1\<close>.
\<close>

fun public_loop :: "library \<Rightarrow> string list \<Rightarrow> pub_state \<Rightarrow> error + pub_state" where
  "public_loop L [] st = Inr st"
| "public_loop L (n # ns) st =
     (if n = [] then public_loop L ns st
      else
        bind (lib_call (parse_int L n)) (\<lambda>i.
        bind (CKD_pub L (pb_cK st) (pb_c st) i) (\<lambda>(cK, c).
          public_loop L ns
            \<lparr> pb_i = Some i, pb_parent_cK = Some (pb_cK st), pb_cK = cK, pb_c = c,
              pb_depth = pb_depth st + 1 \<rparr>)))"

text \<open>
  \<^verbatim>\<open>bip32_public_derivation(xpub, branch, sequence)\<close>: reading \<^verbatim>\<open>parent_cK\<close> after a loop
  whose body never ran raises \<^verbatim>\<open>UnboundLocalError\<close>.
\<close>

definition bip32_public_derivation ::
    "network \<Rightarrow> library \<Rightarrow> string \<Rightarrow> string \<Rightarrow> string \<Rightarrow> error + string" where
  "bip32_public_derivation N L xpub branch sequence =
     bind (deserialize_xpub N L (Str xpub)) (\<lambda>(xtype, depth, fingerprint, child_number, c, cK).
       if \<not> startswith sequence branch then Inl AssertionError
       else
         let sequence = drop (length branch) sequence
         in bind (public_loop L (split CHR ''/'' sequence)
                    \<lparr> pb_i = None, pb_parent_cK = None, pb_cK = cK, pb_c = c, pb_depth = depth \<rparr>)
              (\<lambda>st.
                case pb_parent_cK st of
                  None \<Rightarrow> Inl UnboundLocalError
                | Some parent_cK \<Rightarrow>
                    bind (hash_160 L (Bytes parent_cK)) (\<lambda>h.
                      let fingerprint = take 4 h
                      in (case pb_i st of
                            None \<Rightarrow> Inl UnboundLocalError
                          | Some i \<Rightarrow>
                              bind (bfh (format_hex True 8 i)) (\<lambda>child_number.
                                serialize_xpub N L xtype (pb_c st) (pb_cK st) (pb_depth st)
                                  fingerprint child_number)))))"

section \<open>A library instance for evaluation\<close>

text \<open>
  The theorems below hold for every library record. To run the model on concrete inputs,
  \<open>stub_library\<close> fills the record with fixed answers: constant digests, a base64 decoder
  that hands its argument through, a cipher that returns its input, a point multiplication
  that sends a point to infinity exactly on the multiples of the group order, a point test
  that asks for coordinates below the group order and a point on the curve, and a base
  signature whose \<open>s\<close> lies in the upper half of the order.
\<close>

definition stub_library :: library where
  "stub_library =
     \<lparr> sha256_digest = (\<lambda>m. replicate 32 0),
       sha512_digest = (\<lambda>m. replicate 64 1),
       have_ripemd = True,
       ripemd160_digest = (\<lambda>m. replicate 20 0),
       hmac_sha256 = (\<lambda>k m. replicate 32 2),
       hmac_sha512 = (\<lambda>k m. replicate 64 0xFF),
       b64decode = (\<lambda>v. case v of Bytes bs \<Rightarrow> Some bs | Str s \<Rightarrow> Some (map byte_of_char s)),
       have_AES = False,
       AES_cbc_decrypt = (\<lambda>k iv d. Some d),
       pyaes_cbc_decrypt = (\<lambda>k iv d. Some d),
       point_mul = (\<lambda>P n. if n mod order = 0 then INFINITY else P),
       point_add = (\<lambda>P Q. case P of INFINITY \<Rightarrow> Q | Point x y \<Rightarrow> P),
       Public_key_accepts = (\<lambda>P. P \<noteq> INFINITY),
       point_is_valid = (\<lambda>x y. 0 \<le> x \<and> x < order \<and> 0 \<le> y \<and> y < order
                               \<and> contains_point curve_secp256k1 x y),
       base_sign_number = (\<lambda>secexp number k. Some (1, order - 1)),
       generate_k = (\<lambda>secexp digest. 1),
       verifies = (\<lambda>P number sig. True),
       modular_sqrt = (\<lambda>x q. None),
       inverse_mod = (\<lambda>x q. None),
       parse_int = (\<lambda>s. None) \<rparr>"

text \<open>
  A point of secp256k1 with \<open>y = 1\<close> (its \<open>x\<close> is a cube root of \<open>-6\<close> modulo the field
  prime), its compressed serialisation, and the key with the private number 1.
\<close>

definition unit_y_point :: point where
  "unit_y_point = Point 0x1fe1e5ef3fceb5c135ab7741333ce5a6e80d68167653f6b2b24bcbcfaaaff507 1"

definition unit_y_ser :: bytes where
  "unit_y_ser = 3 # be_bytes 32 0x1fe1e5ef3fceb5c135ab7741333ce5a6e80d68167653f6b2b24bcbcfaaaff507"

definition key_one :: EC_KEY where
  "key_one = \<lparr> pubkey = generator_secp256k1, secret = 1 \<rparr>"

section \<open>Auxiliary facts\<close>

lemma bind_Inl_iff: "bind m f = Inl e \<longleftrightarrow> m = Inl e \<or> (\<exists>x. m = Inr x \<and> f x = Inl e)"
  by (cases m) (simp_all add: bind_def)

lemma bind_Inr_iff: "bind m f = Inr y \<longleftrightarrow> (\<exists>x. m = Inr x \<and> f x = Inr y)"
  by (cases m) (simp_all add: bind_def)

lemma bind_Inr [simp]: "bind (Inr x) f = f x"
  by (simp add: bind_def)

lemma bind_Inl [simp]: "bind (Inl e) f = Inl e"
  by (simp add: bind_def)

lemma lib_call_error: "lib_call r = Inl e \<Longrightarrow> e = LibraryError"
  by (cases r) (simp_all add: lib_call_def)

text \<open>Exponentiation by squaring, for evaluating \<open>py_pow\<close> on numerals.\<close>

lemma py_pow_code [code]:
  "py_pow x e m = (if e \<le> 0 then 1 mod m
     else let h = py_pow x (e div 2) m; s = h * h mod m in if even e then s else s * x mod m)"
proof (cases "e \<le> 0")
  case True
  then show ?thesis by (simp add: py_pow_def)
next
  case False
  define k where "k = nat (e div 2)"
  have split: "nat e = k + k + nat (e mod 2)"
  proof -
    have "0 \<le> e div 2" "0 \<le> e mod 2" "e = e div 2 + e div 2 + e mod 2"
      using False by simp_all
    then show ?thesis unfolding k_def
      by (metis nat_add_distrib add_nonneg_nonneg)
  qed
  have sq: "(x ^ k mod m) * (x ^ k mod m) mod m = x ^ k * x ^ k mod m"
    by (simp add: mod_mult_eq)
  show ?thesis
  proof (cases "even e")
    case True
    then have "e mod 2 = 0" by presburger
    then have "x ^ nat e = x ^ k * x ^ k" using split by (simp add: power_add)
    then show ?thesis using False True sq by (simp add: py_pow_def Let_def k_def)
  next
    case odd: False
    then have "e mod 2 = 1" by presburger
    then have "x ^ nat e = x ^ k * x ^ k * x" using split by (simp add: power_add)
    moreover have "(x ^ k mod m) * (x ^ k mod m) mod m * x mod m = x ^ k * x ^ k * x mod m"
      by (metis sq mod_mult_left_eq)
    ultimately show ?thesis using False odd by (simp add: py_pow_def Let_def k_def)
  qed
qed

subsection \<open>Which errors the helpers raise\<close>

lemma bfh_error: "bfh s = Inl e \<Longrightarrow> e = ValueError"
proof (induction s rule: bfh.induct)
  case 1
  then show ?case by simp
next
  case (2 c)
  then show ?case by (simp split: if_splits)
next
  case (3 c1 c2 cs)
  then show ?case
    by (auto simp: bind_Inl_iff split: option.splits if_splits)
qed

lemma string_to_number_error: "string_to_number s = Inl e \<Longrightarrow> e = ValueError"
  by (simp add: string_to_number_def split: if_splits)

lemma number_to_string_error:
  "number_to_string n = Inl e \<Longrightarrow> e = ValueError \<or> e = AssertionError"
  by (auto simp: number_to_string_def bind_Inl_iff dest: bfh_error split: if_splits)

lemma rev_hex_error: "rev_hex s = Inl e \<Longrightarrow> e = ValueError"
  by (auto simp: rev_hex_def bind_Inl_iff dest: bfh_error)

lemma int_to_hex_error: "int_to_hex i n = Inl e \<Longrightarrow> e = ValueError"
  by (auto simp: int_to_hex_def dest: rev_hex_error)

lemma index_bytes_error: "index_bytes n = Inl e \<Longrightarrow> e = ValueError"
  by (auto simp: index_bytes_def bind_Inl_iff dest: rev_hex_error int_to_hex_error bfh_error)

lemma var_int_error: "var_int i = Inl e \<Longrightarrow> e = ValueError"
  by (auto simp: var_int_def bind_Inl_iff dest: int_to_hex_error split: if_splits)

lemma msg_magic_error: "msg_magic m = Inl e \<Longrightarrow> e = ValueError"
  by (auto simp: msg_magic_def bind_Inl_iff Let_def dest: var_int_error)

lemma ECC_YfromX_loop_error:
  "ECC_YfromX_loop n offset x curved odd_y = Inl e \<Longrightarrow> e = Exception ''ECC_YfromX: No Y found''"
  by (induction n offset x curved odd_y rule: ECC_YfromX_loop.induct)
     (auto simp: Let_def split: if_splits)

lemma ECC_YfromX_error:
  "ECC_YfromX x curved odd_y = Inl e \<Longrightarrow> e = Exception ''ECC_YfromX: No Y found''"
  unfolding ECC_YfromX_def by (rule ECC_YfromX_loop_error)

lemma new_Point_error: "new_Point L x y = Inl e \<Longrightarrow> e = AssertionError"
  by (simp add: new_Point_def split: if_splits)

lemma new_Point_result: "new_Point L x y = Inr P \<Longrightarrow> P = Point x y"
  by (simp add: new_Point_def split: if_splits)

lemma ser_to_point_error:
  "ser_to_point L A = Inl e \<Longrightarrow>
     e = Exception ''IndexError'' \<or> e = AssertionError \<or> e = ValueError
     \<or> e = Exception ''ECC_YfromX: No Y found''"
  by (auto simp: ser_to_point_def bind_Inl_iff
      dest: string_to_number_error ECC_YfromX_error new_Point_error
      split: list.splits if_splits)

lemma point_to_ser_error: "point_to_ser P c = Inl e \<Longrightarrow> e = TypeError \<or> e = ValueError"
  by (auto simp: point_to_ser_def simp del: bfh.simps dest: bfh_error
      split: point.splits if_splits)

lemma GetPubKey_error: "GetPubKey P c = Inl e \<Longrightarrow> e = TypeError \<or> e = ValueError"
  by (auto simp: GetPubKey_def simp del: bfh.simps dest: bfh_error
      split: point.splits if_splits)

subsection \<open>Hexadecimal texts and numbers\<close>

lemma hexval_hexdigit: "d < 16 \<Longrightarrow> hexval (hexdigit u d) = Some d"
proof -
  assume "d < 16"
  then have "d = 0 \<or> d = 1 \<or> d = 2 \<or> d = 3 \<or> d = 4 \<or> d = 5 \<or> d = 6 \<or> d = 7 \<or> d = 8
      \<or> d = 9 \<or> d = 10 \<or> d = 11 \<or> d = 12 \<or> d = 13 \<or> d = 14 \<or> d = 15"
    by arith
  then show ?thesis
    by (elim disjE) (simp_all add: hexdigit_def hexval_def)
qed

lemma hex_int_snoc: "hex_int (s @ [c]) = hex_step (hex_int s) c"
  by (simp add: hex_int_def)

lemma is_hex_append: "is_hex (s @ t) \<longleftrightarrow> is_hex s \<and> is_hex t"
  by (simp add: is_hex_def)

lemma hex_digits_value:
  "0 \<le> n \<Longrightarrow> is_hex (hex_digits u n) \<and> hex_int (hex_digits u n) = n"
proof (induction u n rule: hex_digits.induct)
  case (1 upper n)
  show ?case
  proof (cases "n < 16")
    case True
    then have d: "nat n < 16" using "1.prems" by simp
    have eq: "hex_digits upper n = [hexdigit upper (nat n)]"
      using True by (simp add: hex_digits.simps [of upper n])
    show ?thesis
      using "1.prems" hexval_hexdigit [OF d]
      by (simp add: eq is_hex_def hex_int_def hex_step_def)
  next
    case False
    then have ih: "is_hex (hex_digits upper (n div 16))"
      "hex_int (hex_digits upper (n div 16)) = n div 16"
      using "1.IH" "1.prems" by simp_all
    have d: "nat (n mod 16) < 16" by simp
    have v: "hexval (hexdigit upper (nat (n mod 16))) = Some (nat (n mod 16))"
      by (rule hexval_hexdigit [OF d])
    have eq: "hex_digits upper n
                = hex_digits upper (n div 16) @ [hexdigit upper (nat (n mod 16))]"
      using False by (simp add: hex_digits.simps [of upper n])
    have "16 * (n div 16) + n mod 16 = n" by simp
    then show ?thesis
      using ih v
      by (simp
          add: eq is_hex_append hex_int_snoc hex_step_def is_hex_def)
  qed
qed

lemma hex_digits_length:
  "0 \<le> n \<Longrightarrow> n < 16 ^ k \<Longrightarrow> 0 < k \<Longrightarrow> length (hex_digits u n) \<le> k"
proof (induction u n arbitrary: k rule: hex_digits.induct)
  case (1 upper n)
  show ?case
  proof (cases "n < 16")
    case True
    then show ?thesis using "1.prems"
      by (simp add: hex_digits.simps [of upper n])
  next
    case False
    then obtain j where k: "k = Suc j" using "1.prems" by (cases k) auto
    have "0 < j" using False "1.prems" k by (cases j) auto
    moreover have "n div 16 < 16 ^ j"
    proof -
      have "16 * (n div 16) + n mod 16 = n" "0 \<le> n mod 16" by simp_all
      moreover have "n < 16 * 16 ^ j" using "1.prems" k by simp
      ultimately show ?thesis by linarith
    qed
    moreover have "0 \<le> n div 16" using "1.prems" by simp
    ultimately have "length (hex_digits upper (n div 16)) \<le> j"
      using "1.IH" [of j] False by (simp)
    then show ?thesis using False k
      by (simp add: hex_digits.simps [of upper n])
  qed
qed

lemma hex_int_replicate_zero: "foldl hex_step 0 (replicate m CHR ''0'') = 0"
  by (induction m) (simp_all add: hex_step_def hexval_def)

lemma zero_pad_value: "hex_int (zero_pad w s) = hex_int s"
  by (simp add: zero_pad_def hex_int_def hex_int_replicate_zero)

lemma zero_pad_is_hex: "is_hex s \<Longrightarrow> is_hex (zero_pad w s)"
proof -
  assume s: "is_hex s"
  have "hexval CHR ''0'' \<noteq> None" by (simp add: hexval_def)
  then have "is_hex (replicate (w - length s) CHR ''0'')"
    by (simp add: is_hex_def list_all_iff)
  then show ?thesis using s by (simp add: zero_pad_def is_hex_append)
qed

lemma zero_pad_length: "length s \<le> w \<Longrightarrow> length (zero_pad w s) = w"
  by (simp add: zero_pad_def)

lemma hexval_bound: "hexval c = Some h \<Longrightarrow> h < 16"
  unfolding hexval_def Let_def by (simp split: if_splits)

lemma uint_byte: "k < 256 \<Longrightarrow> uint (of_nat k :: byte) = int k"
  by (simp add: uint_nat unat_of_nat)

lemma hexval_not_blank: "hexval c = Some h \<Longrightarrow> \<not> blank c"
  unfolding hexval_def blank_def Let_def by (auto split: if_splits)

lemma bfh_Cons2:
  "\<not> blank c1 \<Longrightarrow> bfh (c1 # c2 # cs) = Inr bs \<Longrightarrow>
     \<exists>h l rest. hexval c1 = Some h \<and> hexval c2 = Some l \<and> bfh cs = Inr rest
       \<and> bs = of_nat (16 * h + l) # rest"
  by (auto simp: bind_Inr_iff split: option.splits)

lemma is_hex_Cons: "is_hex (c # cs) \<longleftrightarrow> hexval c \<noteq> None \<and> is_hex cs"
  by (simp add: is_hex_def)

lemma bfh_value:
  "is_hex s \<Longrightarrow> bfh s = Inr bs \<Longrightarrow>
     foldl (\<lambda>acc b. acc * 256 + uint b) a bs = foldl hex_step a s"
proof (induction s arbitrary: a bs rule: induct_list012)
  case 1
  then show ?case by simp
next
  case (2 c)
  then obtain h where "hexval c = Some h" by (auto simp: is_hex_Cons)
  then have "\<not> blank c" by (rule hexval_not_blank)
  then show ?case using "2.prems" by simp
next
  case (3 c1 c2 cs)
  from "3.prems"(1) obtain h0 where "hexval c1 = Some h0" and hex_cs: "is_hex cs"
    by (auto simp: is_hex_Cons)
  then have nb: "\<not> blank c1" by (auto dest: hexval_not_blank)
  from bfh_Cons2 [OF nb "3.prems"(2)] obtain h l rest where
    h: "hexval c1 = Some h" and l: "hexval c2 = Some l" and rest: "bfh cs = Inr rest"
    and bs: "bs = of_nat (16 * h + l) # rest"
    by blast
  have "h < 16" "l < 16" using h l by (auto dest: hexval_bound)
  then have "16 * h + l < 256" by simp
  then have u: "uint (of_nat (16 * h + l) :: byte) = int (16 * h + l)"
    by (rule uint_byte)
  have lhs: "foldl (\<lambda>acc b. acc * 256 + uint b) a bs
             = foldl (\<lambda>acc b. acc * 256 + uint b) (a * 256 + int (16 * h + l)) rest"
    unfolding bs by (simp only: foldl_Cons u)
  have step: "hex_step (hex_step a c1) c2 = a * 256 + int (16 * h + l)"
    by (simp add: hex_step_def h l)
  have rhs: "foldl hex_step a (c1 # c2 # cs) = foldl hex_step (a * 256 + int (16 * h + l)) cs"
    by (simp only: foldl_Cons step)
  show ?case
    unfolding lhs rhs by (rule "3.IH"(1) [OF hex_cs rest])
qed

lemma bfh_hex:
  "is_hex s \<Longrightarrow> even (length s) \<Longrightarrow> \<exists>bs. bfh s = Inr bs \<and> 2 * length bs = length s"
proof (induction s rule: induct_list012)
  case 1
  then show ?case by simp
next
  case (2 c)
  then show ?case by simp
next
  case (3 c1 c2 cs)
  then obtain h l where h: "hexval c1 = Some h" and l: "hexval c2 = Some l"
    by (auto simp: is_hex_def)
  have nb: "\<not> blank c1" using h by (rule hexval_not_blank)
  have "is_hex cs" "even (length cs)" using "3.prems" by (simp_all add: is_hex_def)
  then obtain rest where "bfh cs = Inr rest" "2 * length rest = length cs"
    using "3.IH"(1) by blast
  then show ?case using h l nb by simp
qed

lemma hex_digits_nonempty: "hex_digits u n \<noteq> []"
  by (simp add: hex_digits.simps [of u n])

lemma format_hex_negative:
  "\<not> 0 \<le> n \<Longrightarrow> bfh (format_hex False w n) = Inl ValueError"
proof -
  assume neg: "\<not> 0 \<le> n"
  obtain c cs where pad: "zero_pad (w - 1) (hex_digits False (- n)) = c # cs"
    using hex_digits_nonempty [of False "- n"]
    by (cases "zero_pad (w - 1) (hex_digits False (- n))") (simp_all add: zero_pad_def)
  have "format_hex False w n = CHR ''-'' # c # cs"
    using neg by (simp only: format_hex_def pad if_False)
  moreover have "bfh (CHR ''-'' # c # cs) = Inl ValueError"
    by (simp add: hexval_def blank_def)
  ultimately show ?thesis by (simp only:)
qed

lemma format_hex_value: "0 \<le> n \<Longrightarrow> hex_int (format_hex u w n) = n"
  by (simp add: format_hex_def zero_pad_value hex_digits_value)

lemma format_hex_is_hex: "0 \<le> n \<Longrightarrow> is_hex (format_hex u w n)"
  by (simp add: format_hex_def zero_pad_is_hex hex_digits_value)

lemma bfh_be_int: "is_hex s \<Longrightarrow> bfh s = Inr bs \<Longrightarrow> be_int bs = hex_int s"
  using bfh_value [of s bs 0] by (simp add: be_int_def hex_int_def)

lemma number_to_string_value:
  assumes "number_to_string n = Inr bs"
  shows "be_int bs = n \<and> length bs = 32 \<and> 0 \<le> n"
proof -
  from assms have b: "bfh (format_hex False 64 n) = Inr bs" and len: "length bs = 32"
    by (auto simp: number_to_string_def bind_Inr_iff split: if_splits)
  have nonneg: "0 \<le> n"
    using b format_hex_negative [of n 64] by (cases "0 \<le> n") simp_all
  have "be_int bs = n"
    using bfh_be_int [OF format_hex_is_hex [OF nonneg] b]
      format_hex_value [OF nonneg, of False 64] by (simp only:)
  then show ?thesis using len nonneg by (simp only: simp_thms)
qed

lemma number_to_string_total:
  assumes "0 \<le> n" "n < 2 ^ 256"
  shows "\<exists>bs. number_to_string n = Inr bs"
proof -
  have "n < 16 ^ 64" using assms by simp
  then have "length (hex_digits False n) \<le> 64"
    using hex_digits_length [of n 64 False] assms by (simp)
  then have len: "length (zero_pad 64 (hex_digits False n)) = 64"
    by (rule zero_pad_length)
  have "is_hex (hex_digits False n)"
    using hex_digits_value [OF assms(1)] by blast
  then have "is_hex (zero_pad 64 (hex_digits False n))"
    by (rule zero_pad_is_hex)
  moreover have "even (length (zero_pad 64 (hex_digits False n)))"
    by (simp only: len) simp
  ultimately obtain bs where b: "bfh (zero_pad 64 (hex_digits False n)) = Inr bs"
    and l: "2 * length bs = length (zero_pad 64 (hex_digits False n))"
    using bfh_hex by blast
  have fmt: "format_hex False 64 n = zero_pad 64 (hex_digits False n)"
    using assms(1) by (simp only: format_hex_def if_True)
  have "length bs = 32" using l len by simp
  then have "number_to_string n = Inr bs"
    by (simp only: number_to_string_def fmt b bind_Inr) simp
  then show ?thesis by blast
qed

subsection \<open>Evaluation on the stub library\<close>

lemma ECC_YfromX_unit_y:
  "ECC_YfromX 0x1fe1e5ef3fceb5c135ab7741333ce5a6e80d68167653f6b2b24bcbcfaaaff507
     curve_secp256k1 True = Inr (1, 0)"
  by code_simp

lemma ser_to_point_unit_y: "ser_to_point stub_library unit_y_ser = Inr unit_y_point"
proof -
  have x: "string_to_number
             (be_bytes 32 0x1fe1e5ef3fceb5c135ab7741333ce5a6e80d68167653f6b2b24bcbcfaaaff507)
           = Inr 0x1fe1e5ef3fceb5c135ab7741333ce5a6e80d68167653f6b2b24bcbcfaaaff507"
    by code_simp
  have P: "new_Point stub_library
             0x1fe1e5ef3fceb5c135ab7741333ce5a6e80d68167653f6b2b24bcbcfaaaff507 1
           = Inr unit_y_point"
    by code_simp
  show ?thesis
    by (simp add: ser_to_point_def unit_y_ser_def x ECC_YfromX_unit_y P)
qed

section \<open>Properties of the codec\<close>

text \<open>
  C2 (the code departs from the claim). The claim: a text with a character outside the
  alphabet is rejected by \<open>base_decode\<close>, which returns no bytes. The code gives such a
  character the digit value \<open>-1\<close> that \<^verbatim>\<open>find\<close> returns: \<^verbatim>\<open>0\<close> is no base-58 character
  and \<^verbatim>\<open>a\<close> is no base-43 character, yet \<^verbatim>\<open>20\<close> decodes to the byte 57
  (\<open>1 * 58 - 1\<close>) and \<^verbatim>\<open>1a\<close> to the byte 42 (\<open>1 * 43 - 1\<close>), with and without an
  expected length.
\<close>

theorem base_decode_foreign_character:
  "byte_of_char CHR ''0'' \<notin> set b58chars
   \<and> base_decode (Str ''20'') None 58 = Inr (Some [57])
   \<and> base_decode (Str ''20'') (Some 1) 58 = Inr (Some [57])
   \<and> byte_of_char CHR ''a'' \<notin> set b43chars
   \<and> base_decode (Str ''1a'') None 43 = Inr (Some [42])
   \<and> base_decode (Str ''1a'') (Some 1) 43 = Inr (Some [42])"
  by code_simp

text \<open>
  C6 (the code departs from the claim). The claim: \<open>base_decode (base_encode b) (length b) = b\<close>
  for every buffer \<open>b\<close>, a leading zero byte being one leading zero digit. For a buffer of
  zero bytes only, the encoder writes the digit of the value 0 and then one more zero digit
  per byte, so the single byte 0 becomes two digits, and the decoder, which does the same,
  finds three bytes where one is expected and returns \<^verbatim>\<open>None\<close>; likewise for the empty
  buffer.
\<close>

theorem base_codec_zero_buffer:
  "base_encode [0] 58 = Inr ''11'' \<and> base_decode (Str ''11'') (Some 1) 58 = Inr None
   \<and> base_encode [0] 43 = Inr ''00'' \<and> base_decode (Str ''00'') (Some 1) 43 = Inr None
   \<and> base_encode [] 58 = Inr ''1'' \<and> base_decode (Str ''1'') (Some 0) 58 = Inr None"
  by code_simp

section \<open>Properties of minikeys\<close>

lemma is_minikey_never_True: "is_minikey L t \<noteq> Inr True"
proof (cases t)
  case (Str s)
  show ?thesis
  proof (cases "20 \<le> length s")
    case True
    then obtain c cs where s: "s = c # cs" by (cases s) auto
    show ?thesis using True
      by (simp add: is_minikey_def Str s py_len_def py_first_def py_iter_def bind_def
          in_bytes_def)
  next
    case False
    then show ?thesis by (simp add: is_minikey_def Str py_len_def)
  qed
next
  case (Bytes bs)
  show ?thesis
    by (cases bs) (simp_all add: is_minikey_def Bytes py_len_def py_first_def py_iter_def bind_def)
qed

text \<open>
  C4 (the code departs from the claim). The claim: \<open>is_minikey\<close> is true exactly for the
  texts of at least 20 base-58 characters that start with \<^verbatim>\<open>S\<close> and whose SHA-256 with
  \<^verbatim>\<open>?\<close> appended starts with a zero byte, in particular for
  \<^verbatim>\<open>S6c56bnXQiBjk9mqSYE7ykVQ7NzrRy\<close>. On that text the code raises \<^verbatim>\<open>TypeError\<close>:
  the membership test \<^verbatim>\<open>c in __b58chars\<close> looks a one-character text up in a
  \<^verbatim>\<open>bytes\<close> object. This holds for every SHA-256, which is never reached.
\<close>

theorem is_minikey_raises:
  "is_minikey L (Str ''S6c56bnXQiBjk9mqSYE7ykVQ7NzrRy'') = Inl TypeError"
  by (simp add: is_minikey_def py_len_def py_first_def py_iter_def bind_def in_bytes_def)

section \<open>Properties of child derivation\<close>

lemma CKD_pub_inner_error:
  "CKD_pub_inner L cK c s = Inl e \<Longrightarrow> e \<noteq> NoActiveException"
  by (auto simp: CKD_pub_inner_def Let_def bind_Inl_iff
      dest: string_to_number_error ser_to_point_error GetPubKey_error split: if_splits)

lemma hardened_bit:
  fixes n :: int
  assumes "2 ^ 31 \<le> n" "n < 2 ^ 32"
  shows "n AND BIP32_PRIME \<noteq> 0"
proof -
  have "n div 2 ^ 31 = 1" using assms by simp
  then have "bit n 31" by (simp add: bit_iff_odd)
  then have "n AND 2 ^ 31 \<noteq> 0" by (metis and_exp_eq_0_iff_not_bit)
  moreover have "BIP32_PRIME = 2 ^ 31" by (simp add: BIP32_PRIME_def)
  ultimately show ?thesis by metis
qed

lemma non_hardened_bit:
  fixes n :: int
  assumes "0 \<le> n" "n < 2 ^ 31"
  shows "n AND BIP32_PRIME = 0"
proof -
  have "n div 2 ^ 31 = 0" using assms by simp
  then have "\<not> bit n 31" by (simp add: bit_iff_odd)
  then have "n AND 2 ^ 31 = 0" by (metis and_exp_eq_0_iff_not_bit)
  moreover have "BIP32_PRIME = 2 ^ 31" by (simp add: BIP32_PRIME_def)
  ultimately show ?thesis by metis
qed

text \<open>
  C8. For every parent public key \<open>cK\<close>, chain code \<open>c\<close> and 32-bit index \<open>n\<close> with the
  hardened bit set (\<open>2^31 \<le> n < 2^32\<close>), \<open>CKD_pub\<close> raises and returns no key. For an index
  below \<open>2^31\<close> the test does not fire: \<open>CKD_pub\<close> is \<open>_CKD_pub\<close> on the four index bytes,
  and whatever that raises is not the error of the test.
\<close>

theorem CKD_pub_hardened:
  "(2 ^ 31 \<le> n \<and> n < 2 ^ 32 \<longrightarrow> CKD_pub L cK c n = Inl NoActiveException)
   \<and> (0 \<le> n \<and> n < 2 ^ 31 \<longrightarrow>
        CKD_pub L cK c n = bind (index_bytes n) (CKD_pub_inner L cK c)
        \<and> CKD_pub L cK c n \<noteq> Inl NoActiveException)"
proof (intro conjI impI)
  assume "2 ^ 31 \<le> n \<and> n < 2 ^ 32"
  then show "CKD_pub L cK c n = Inl NoActiveException"
    using hardened_bit [of n] by (simp add: CKD_pub_def)
next
  assume a: "0 \<le> n \<and> n < 2 ^ 31"
  then show eq: "CKD_pub L cK c n = bind (index_bytes n) (CKD_pub_inner L cK c)"
    using non_hardened_bit [of n] by (simp add: CKD_pub_def)
  show "CKD_pub L cK c n \<noteq> Inl NoActiveException"
    unfolding eq
    by (auto simp: bind_Inl_iff dest: index_bytes_error CKD_pub_inner_error)
qed

theorem CKD_pub_hardened_witness:
  "CKD_pub stub_library unit_y_ser (replicate 32 0) 0x80000005 = Inl NoActiveException
   \<and> CKD_pub stub_library unit_y_ser (replicate 32 0) 5
       = bind (index_bytes 5) (CKD_pub_inner stub_library unit_y_ser (replicate 32 0))
   \<and> CKD_pub stub_library unit_y_ser (replicate 32 0) 5 \<noteq> Inl NoActiveException"
proof -
  have hardened: "(2 :: int) ^ 31 \<le> 0x80000005 \<and> (0x80000005 :: int) < 2 ^ 32"
    by simp
  have plain: "(0 :: int) \<le> 5 \<and> (5 :: int) < 2 ^ 31"
    by simp
  show ?thesis
    using CKD_pub_hardened [of "0x80000005" stub_library unit_y_ser "replicate 32 0"]
      CKD_pub_hardened [of 5 stub_library unit_y_ser "replicate 32 0"] hardened plain
    by blast
qed

lemma order_bounds: "0 < order" "order < 2 ^ 256"
  by (simp_all add: order_def)

text \<open>
  \<open>_CKD_priv\<close> has no test on the scalar it derives. Whenever \<open>EC_KEY\<close> accepts the parent
  key \<open>k\<close>, its compressed public key serialises and the left half \<open>I[0:32]\<close> of the HMAC
  is not empty, it returns: the child key is the 32-byte big-endian text of
  \<open>(I_left + k) mod order\<close> and the chain code is \<open>I[32:]\<close>, for every HMAC function.
\<close>

lemma CKD_priv_inner_returns:
  assumes "EC_KEY_init L k = Inr keypair"
    and "GetPubKey (pubkey keypair) True = Inr cK"
    and "I = hmac_sha512 L c (if is_prime \<noteq> 0 then [0] @ k @ s else cK @ s)"
    and "take 32 I \<noteq> []"
  shows "(\<exists>k_n. CKD_priv_inner L k c s is_prime = Inr (k_n, drop 32 I)
            \<and> length k_n = 32
            \<and> be_int k_n = (be_int (take 32 I) + be_int k) mod order)
         \<and> (index_bytes n = Inr s \<and> is_prime = n AND BIP32_PRIME
              \<longrightarrow> CKD_priv L k c n = CKD_priv_inner L k c s is_prime)"
proof -
  define v where "v = (be_int (take 32 I) + be_int k) mod order"
  have k: "string_to_number k = Inr (be_int k)"
    using assms(1) by (auto simp: EC_KEY_init_def bind_Inr_iff string_to_number_def split: if_splits)
  have il: "string_to_number (take 32 I) = Inr (be_int (take 32 I))"
    using assms(4) by (simp add: string_to_number_def)
  have "0 \<le> v" "v < 2 ^ 256"
    using order_bounds unfolding v_def
    by (simp, smt (verit) pos_mod_bound)
  then obtain k_n where kn: "number_to_string v = Inr k_n"
    using number_to_string_total by blast
  have val: "be_int k_n = v" "length k_n = 32"
    using number_to_string_value [OF kn] by simp_all
  have "CKD_priv_inner L k c s is_prime = Inr (k_n, drop 32 I)"
    using assms(1,2) k il kn
    by (simp add: CKD_priv_inner_def Let_def assms(3) [symmetric] v_def)
  then have first: "\<exists>k_n. CKD_priv_inner L k c s is_prime = Inr (k_n, drop 32 I)
      \<and> length k_n = 32 \<and> be_int k_n = (be_int (take 32 I) + be_int k) mod order"
    using val by (auto simp: v_def)
  have "index_bytes n = Inr s \<and> is_prime = n AND BIP32_PRIME
          \<longrightarrow> CKD_priv L k c n = CKD_priv_inner L k c s is_prime"
    by (simp add: CKD_priv_def Let_def)
  with first show ?thesis by blast
qed


section \<open>Properties of signing\<close>

lemma sign_number_low_s:
  assumes "MySigningKey_sign_number L secexp number k = Inr (r, s)"
  shows "s \<le> order div 2"
proof -
  from assms obtain r0 s0 where
    s: "s = (if s0 > order div 2 then order - s0 else s0)"
    by (auto simp: MySigningKey_sign_number_def bind_Inr_iff Let_def split: prod.splits)
  have "order \<le> 2 * (order div 2) + 1" by (simp add: order_def)
  then show ?thesis unfolding s by (simp split: if_splits)
qed

lemma sigencode_decode:
  assumes "sigencode_string r s = Inr signature"
  shows "sigdecode_string signature = Inr (r, s)"
proof -
  from assms obtain r_str s_str where
    r: "number_to_string r = Inr r_str" and s: "number_to_string s = Inr s_str"
    and sig: "signature = r_str @ s_str"
    by (auto simp: sigencode_string_def bind_Inr_iff)
  have "length r_str = 32" "length s_str = 32" "be_int r_str = r" "be_int s_str = s"
    using number_to_string_value [OF r] number_to_string_value [OF s] by simp_all
  then show ?thesis
    by (simp add: sigdecode_string_def sig)
qed

text \<open>
  C7. Every signature of the signing path is canonical: the \<open>s\<close> that
  \<open>MySigningKey.sign_number\<close> returns is at most \<open>order div 2\<close>, for every key, number
  and nonce, and the 64 bytes that \<open>EC_KEY.sign\<close> returns decode (by
  \<^verbatim>\<open>sigdecode_string\<close>) to a pair whose \<open>s\<close> is at most \<open>order div 2\<close>, where \<open>order\<close> is
  the group order of secp256k1.
\<close>

theorem sign_low_s:
  "(MySigningKey_sign_number L secexp number k = Inr (r, s) \<longrightarrow> s \<le> order div 2)
   \<and> (EC_KEY_sign L self msg_hash = Inr signature \<longrightarrow>
        (\<exists>r' s'. sigdecode_string signature = Inr (r', s') \<and> s' \<le> order div 2))"
proof (intro conjI impI)
  assume "MySigningKey_sign_number L secexp number k = Inr (r, s)"
  then show "s \<le> order div 2" by (rule sign_number_low_s)
next
  assume "EC_KEY_sign L self msg_hash = Inr signature"
  then have "sign_digest_deterministic L (secret self) msg_hash = Inr signature"
    by (auto simp: EC_KEY_sign_def Let_def bind_Inr_iff split: if_splits)
  then obtain number r' s' where
    sn: "MySigningKey_sign_number L (secret self) number
           (Some (generate_k L (secret self) msg_hash)) = Inr (r', s')"
    and enc: "sigencode_string r' s' = Inr signature"
    by (auto simp: sign_digest_deterministic_def sign_digest_def bind_Inr_iff
        split: if_splits prod.splits)
  show "\<exists>r' s'. sigdecode_string signature = Inr (r', s') \<and> s' \<le> order div 2"
    using sigencode_decode [OF enc] sign_number_low_s [OF sn] by blast
qed

theorem sign_low_s_witness:
  "MySigningKey_sign_number stub_library 1 7 None = Inr (1, 1)
   \<and> (1 :: int) \<le> order div 2
   \<and> EC_KEY_sign stub_library key_one (replicate 32 7) = Inr (be_bytes 32 1 @ be_bytes 32 1)
   \<and> (\<exists>r' s'. sigdecode_string (be_bytes 32 1 @ be_bytes 32 1) = Inr (r', s')
         \<and> s' \<le> order div 2)"
proof -
  have a: "MySigningKey_sign_number stub_library 1 7 None = Inr (1, 1)"
    by code_simp
  have b: "EC_KEY_sign stub_library key_one (replicate 32 7)
           = Inr (be_bytes 32 1 @ be_bytes 32 1)"
    by code_simp
  show ?thesis
    using sign_low_s [of stub_library 1 7 None 1 1 key_one "replicate 32 7"
        "be_bytes 32 1 @ be_bytes 32 1"] a b
    by blast
qed

section \<open>Properties of ECIES decryption\<close>

lemma aes_decrypt_with_iv_error:
  "fst (aes_decrypt_with_iv L key iv data) = Inl e \<Longrightarrow>
     e = LibraryError \<or> e = Exception ''IndexError'' \<or> e = TypeError"
  by (auto simp: aes_decrypt_with_iv_def bind_Inl_iff dest: lib_call_error split: if_splits)

lemma aes_decrypt_with_iv_events:
  "snd (aes_decrypt_with_iv L key iv data) = [CipherRun key iv data]"
  by (simp add: aes_decrypt_with_iv_def)

text \<open>
  C3 (amended). The claim: \<open>decrypt_message\<close> rejects exactly the decoded envelopes shorter
  than 69 bytes. The bound of the code is 85 = 4 + 33 + 16 + 32 (one cipher block of 16 bytes
  is required): \<open>decrypt_message\<close> fails with the length error exactly when the base64-decoded
  envelope is shorter than 85 bytes, and an envelope of 85 bytes or more passes the length
  test.
\<close>

theorem decrypt_message_length:
  "fst (decrypt_message L self encrypted) = Inl (Exception ''invalid ciphertext: length'')
   \<longleftrightarrow> (\<exists>env. b64decode L encrypted = Some env \<and> length env < 85)"
proof (cases "b64decode L encrypted")
  case None
  then show ?thesis by (simp add: decrypt_message_def)
next
  case (Some env)
  show ?thesis
  proof (cases "length env < 85")
    case True
    then show ?thesis using Some by (simp add: decrypt_message_def)
  next
    case False
    have "fst (decrypt_message L self encrypted) \<noteq> Inl (Exception ''invalid ciphertext: length'')"
      using Some False
      by (auto simp: decrypt_message_def Let_def split_beta
          dest!: ser_to_point_error point_to_ser_error aes_decrypt_with_iv_error
          split: sum.splits point.splits if_splits)
    then show ?thesis using Some False by simp
  qed
qed


text \<open>
  The claim fails between 69 and 84 bytes: an envelope of 69 bytes (magic, a valid
  compressed point, no ciphertext, the right MAC) and one of 84 bytes are rejected for
  their length.
\<close>

theorem decrypt_message_length_counterexample:
  "length (BIE1 @ unit_y_ser @ replicate 32 2) = 69
   \<and> decrypt_message stub_library key_one (Bytes (BIE1 @ unit_y_ser @ replicate 32 2))
       = (Inl (Exception ''invalid ciphertext: length''), [])
   \<and> length (BIE1 @ unit_y_ser @ replicate 15 9 @ replicate 32 2) = 84
   \<and> decrypt_message stub_library key_one
         (Bytes (BIE1 @ unit_y_ser @ replicate 15 9 @ replicate 32 2))
       = (Inl (Exception ''invalid ciphertext: length''), [])"
  by code_simp

lemma decrypt_message_events:
  "snd (decrypt_message L self encrypted) = []
   \<or> snd (decrypt_message L self encrypted) = [MacComputed]
   \<or> (\<exists>key iv data. snd (decrypt_message L self encrypted)
         = [MacComputed, CipherRun key iv data])"
  by (auto simp: decrypt_message_def Let_def split_beta aes_decrypt_with_iv_events
      split: option.splits sum.splits point.splits if_splits)

text \<open>
  C1. For every private key and every base64-decoded envelope that passes the length,
  magic and ephemeral-point checks and for which the shared secret is derived: when the
  HMAC-SHA256 recomputed over all bytes but the last 32 differs from the last 32 bytes,
  \<open>decrypt_message\<close> fails with \<open>InvalidPassword\<close>, and the events of the run are the MAC
  computation alone: the block cipher is not run.
\<close>

theorem decrypt_message_mac_first:
  assumes "b64decode L encrypted = Some env"
    and "85 \<le> length env"
    and "take 4 env = BIE1"
    and "ser_to_point L (take 33 (drop 4 env)) = Inr (Point x y)"
    and "point_is_valid L x y"
    and "point_to_ser (point_mul L (Point x y) (secret self)) True = Inr ecdh_key"
    and "drop (length env - 32) env
           \<noteq> hmac_sha256 L (drop 32 (sha512_digest L ecdh_key)) (take (length env - 32) env)"
  shows "decrypt_message L self encrypted = (Inl InvalidPassword, [MacComputed])
         \<and> (\<forall>key iv data. CipherRun key iv data \<notin> set (snd (decrypt_message L self encrypted)))"
proof -
  have "decrypt_message L self encrypted = (Inl InvalidPassword, [MacComputed])"
    using assms by (simp add: decrypt_message_def Let_def)
  then show ?thesis by simp
qed

theorem decrypt_message_mac_first_witness:
  "decrypt_message stub_library key_one
       (Bytes (BIE1 @ unit_y_ser @ replicate 16 9 @ replicate 32 0))
     = (Inl InvalidPassword, [MacComputed])
   \<and> (\<forall>key iv data. CipherRun key iv data \<notin> set (snd (decrypt_message stub_library key_one
          (Bytes (BIE1 @ unit_y_ser @ replicate 16 9 @ replicate 32 0)))))"
proof -
  define env where "env = BIE1 @ unit_y_ser @ replicate 16 9 @ replicate 32 (0 :: byte)"
  have len4: "length BIE1 = 4" by (simp add: BIE1_def)
  have len33: "length unit_y_ser = 33" by (simp add: unit_y_ser_def be_bytes_def)
  have h1: "b64decode stub_library (Bytes env) = Some env"
    by (simp add: stub_library_def)
  have h2: "85 \<le> length env"
    by (simp add: env_def len4 len33)
  have h3: "take 4 env = BIE1"
    by (simp add: env_def len4)
  have "take 33 (drop 4 env) = unit_y_ser"
    by (simp add: env_def len4 len33)
  then have h4: "ser_to_point stub_library (take 33 (drop 4 env))
                 = Inr (Point 0x1fe1e5ef3fceb5c135ab7741333ce5a6e80d68167653f6b2b24bcbcfaaaff507 1)"
    using ser_to_point_unit_y by (simp add: unit_y_point_def)
  have h5: "point_is_valid stub_library
              0x1fe1e5ef3fceb5c135ab7741333ce5a6e80d68167653f6b2b24bcbcfaaaff507 1"
    by code_simp
  have h6: "point_to_ser (point_mul stub_library
              (Point 0x1fe1e5ef3fceb5c135ab7741333ce5a6e80d68167653f6b2b24bcbcfaaaff507 1)
              (secret key_one)) True = Inr unit_y_ser"
    by code_simp
  have "drop (length env - 32) env = replicate 32 0"
    by (simp add: env_def len4 len33)
  then have h7: "drop (length env - 32) env
      \<noteq> hmac_sha256 stub_library (drop 32 (sha512_digest stub_library unit_y_ser))
          (take (length env - 32) env)"
    by (simp add: stub_library_def)
  show ?thesis
    using decrypt_message_mac_first [OF h1 h2 h3 h4 h5 h6 h7]
    unfolding env_def by blast
qed

section \<open>Properties of message verification\<close>

lemma base_encode_error: "base_encode v base = Inl e \<Longrightarrow> e = AssertionError"
  by (simp add: base_encode_def Let_def split_beta split: if_splits)

lemma bytes1_error: "bytes1 i = Inl e \<Longrightarrow> e = ValueError"
  by (simp add: bytes1_def split: if_splits)

lemma to_bytes_ascii_error: "to_bytes_ascii x = Inl e \<Longrightarrow> e = UnicodeError"
  by (simp add: to_bytes_ascii_def split: pyval.splits if_splits)

lemma hash_160_error: "hash_160 L x = Inl e \<Longrightarrow> is_Exception e"
  by (auto simp: hash_160_def bind_Inl_iff is_Exception_def dest: to_bytes_ascii_error
      split: if_splits)

lemma hash_160_to_bc_address_error:
  "hash_160_to_bc_address N L h t w = Inl e \<Longrightarrow> is_Exception e"
  by (auto simp: hash_160_to_bc_address_def bind_Inl_iff is_Exception_def Let_def
      dest: bytes1_error base_encode_error split: if_splits)

lemma public_key_to_p2pkh_error: "public_key_to_p2pkh N L pk = Inl e \<Longrightarrow> is_Exception e"
  by (auto simp: public_key_to_p2pkh_def bind_Inl_iff
      dest: hash_160_error hash_160_to_bc_address_error)

lemma sigdecode_string_error: "sigdecode_string sig = Inl e \<Longrightarrow> e = AssertionError"
  by (simp add: sigdecode_string_def split: if_splits)

lemma from_signature_error: "from_signature L sig recid h = Inl e \<Longrightarrow> is_Exception e"
  by (auto simp: from_signature_def bind_Inl_iff is_Exception_def Let_def
      dest: sigdecode_string_error lib_call_error new_Point_error string_to_number_error
      split: if_splits)

lemma is_Exception_iff: "is_Exception e \<longleftrightarrow> (\<forall>s. e \<noteq> BaseException s)"
  by (cases e) (simp_all add: is_Exception_def)

lemma msg_magic_exception: "msg_magic m = Inl e \<Longrightarrow> is_Exception e"
  by (auto simp: is_Exception_iff dest: msg_magic_error)

lemma point_to_ser_exception: "point_to_ser P c = Inl e \<Longrightarrow> is_Exception e"
  by (auto simp: is_Exception_iff dest: point_to_ser_error)

lemma pubkey_from_signature_error:
  "pubkey_from_signature L sig message = Inl e \<Longrightarrow> is_Exception e"
  by (auto simp: pubkey_from_signature_def bind_Inl_iff Let_def split_beta is_Exception_iff
      dest: msg_magic_exception from_signature_error
      split: if_splits)

lemma verify_digest_error: "verify_digest L P sig h = Inl e \<Longrightarrow> is_Exception e"
  by (auto simp: verify_digest_def bind_Inl_iff is_Exception_def
      dest: string_to_number_error sigdecode_string_error split: if_splits)

lemma verify_message_try_error:
  "verify_message_try N L address sig message = Inl e \<Longrightarrow> is_Exception e"
  by (auto simp: verify_message_try_def bind_Inl_iff Let_def
      dest: pubkey_from_signature_error point_to_ser_exception public_key_to_p2pkh_error
        msg_magic_exception verify_digest_error
      split: if_splits)
     (simp add: is_Exception_def)

text \<open>
  C10. For every address (text or bytes), signature bytes and message bytes,
  \<open>verify_message\<close> returns a boolean and raises nothing: it returns \<open>True\<close> exactly when the
  body of its \<^verbatim>\<open>try\<close> block runs to the end, and \<open>False\<close> when anything in it raises, in
  particular for a signature that is not 65 bytes long and for a header byte outside
  \<open>27..34\<close>.
\<close>

theorem verify_message_total:
  "(\<exists>r. verify_message N L address (Bytes sig) (Bytes message) = Inr r)
   \<and> verify_message N L address (Bytes sig) (Bytes message)
       = Inr (verify_message_try N L address sig message = Inr True)
   \<and> (length sig \<noteq> 65 \<longrightarrow> verify_message N L address (Bytes sig) (Bytes message) = Inr False)
   \<and> (length sig = 65 \<and> (uint (hd sig) < 27 \<or> 35 \<le> uint (hd sig))
        \<longrightarrow> verify_message N L address (Bytes sig) (Bytes message) = Inr False)"
proof -
  have try_True: "r = True" if "verify_message_try N L address sig message = Inr r" for r
    using that by (auto simp: verify_message_try_def bind_Inr_iff split: if_splits)
  have eq: "verify_message N L address (Bytes sig) (Bytes message)
       = Inr (verify_message_try N L address sig message = Inr True)"
  proof (cases "verify_message_try N L address sig message")
    case (Inl e)
    then show ?thesis
      using verify_message_try_error [OF Inl] by (simp add: verify_message_def)
  next
    case (Inr r)
    then show ?thesis
      using try_True [OF Inr] by (simp add: verify_message_def)
  qed
  have short: "verify_message_try N L address sig message = Inl (Exception ''Wrong encoding'')"
    if "length sig \<noteq> 65"
    using that by (simp add: verify_message_try_def pubkey_from_signature_def)
  have header: "verify_message_try N L address sig message = Inl (Exception ''Bad encoding'')"
    if "length sig = 65 \<and> (uint (hd sig) < 27 \<or> 35 \<le> uint (hd sig))"
    using that by (auto simp: verify_message_try_def pubkey_from_signature_def Let_def)
  show ?thesis
    using eq short header by auto
qed

theorem verify_message_total_witness:
  "verify_message mainnet stub_library (Str ''1BitcoinEaterAddressDontSendf59kuE'')
       (Bytes (replicate 64 0)) (Bytes []) = Inr False
   \<and> verify_message mainnet stub_library (Str ''1BitcoinEaterAddressDontSendf59kuE'')
       (Bytes (replicate 65 0)) (Bytes []) = Inr False"
proof -
  have a: "length (replicate 64 (0 :: byte)) \<noteq> 65" by simp
  have b: "length (replicate 65 (0 :: byte)) = 65
           \<and> (uint (hd (replicate 65 (0 :: byte))) < 27 \<or> 35 \<le> uint (hd (replicate 65 (0 :: byte))))"
    by (simp add: numeral_eq_Suc)
  show ?thesis
    using verify_message_total [of mainnet stub_library
        "Str ''1BitcoinEaterAddressDontSendf59kuE''" "replicate 64 0" "[]"]
      verify_message_total [of mainnet stub_library
        "Str ''1BitcoinEaterAddressDontSendf59kuE''" "replicate 65 0" "[]"] a b
    by blast
qed

section \<open>Properties of derivation along a path\<close>

lemma startswith_self: "startswith s s"
  by (simp add: startswith_def)

text \<open>
  C9 (the code departs from the claim). The claim: along every path of non-hardened
  indices, \<open>bip32_public_derivation\<close> of the xpub gives the extended public key that
  \<open>bip32_private_derivation\<close> of the xprv gives. On the empty path (\<open>sequence = branch\<close>) the
  private derivation returns the key itself with \<open>xpub_from_xprv\<close>, by its first test;
  the public derivation has no such test, runs its loop over no index and then reads the
  unbound \<^verbatim>\<open>parent_cK\<close>: whenever the xpub deserialises, it raises
  \<^verbatim>\<open>UnboundLocalError\<close>. This holds for every network and every library record.
\<close>

theorem bip32_public_derivation_empty_path:
  "bip32_public_derivation N L xpub branch branch
     = bind (deserialize_xpub N L (Str xpub)) (\<lambda>d. Inl UnboundLocalError)
   \<and> bip32_private_derivation N L xprv branch branch
     = bind (xpub_from_xprv N L (Str xprv)) (\<lambda>xpub. Inr (xprv, xpub))"
proof
  show "bip32_public_derivation N L xpub branch branch
          = bind (deserialize_xpub N L (Str xpub)) (\<lambda>d. Inl UnboundLocalError)"
    by (cases "deserialize_xpub N L (Str xpub)")
       (simp_all add: bip32_public_derivation_def startswith_self split_beta)
  show "bip32_private_derivation N L xprv branch branch
          = bind (xpub_from_xprv N L (Str xprv)) (\<lambda>xpub. Inr (xprv, xpub))"
    by (simp add: bip32_private_derivation_def startswith_self)
qed

end
